theory Spec2Isabelle
  imports Main
begin

section \<open>Python string operations used by the scraper\<close>

text \<open>
  Text is modelled as \<^typ>\<open>string\<close>: one \<^typ>\<open>char\<close> per character, code points
  below 256. \<open>isspace\<close> lists the characters of that range for which Python's
  \<^verbatim>\<open>str.isspace\<close> holds; \<^verbatim>\<open>str.strip()\<close> and \<^verbatim>\<open>str.split()\<close> use the same set.
\<close>

definition isspace :: "char \<Rightarrow> bool" where
  "isspace c = (c \<in> set [CHR 0x09, CHR 0x0A, CHR 0x0B, CHR 0x0C, CHR 0x0D,
                           CHR 0x1C, CHR 0x1D, CHR 0x1E, CHR 0x1F, CHR 0x20,
                           CHR 0x85, CHR 0xA0])"

text \<open>\<^verbatim>\<open>s.strip()\<close>\<close>

definition strip :: "string \<Rightarrow> string" where
  "strip s = rev (dropWhile isspace (rev (dropWhile isspace s)))"

text \<open>\<^verbatim>\<open>s.startswith(p)\<close>\<close>

definition startswith :: "string \<Rightarrow> string \<Rightarrow> bool" where
  "startswith s p = (take (length p) s = p)"

text \<open>\<^verbatim>\<open>s.find(sub)\<close>, with \<open>None\<close> for Python's \<open>-1\<close>; \<^verbatim>\<open>sub in s\<close> is \<open>str_contains\<close>.\<close>

fun str_find :: "string \<Rightarrow> string \<Rightarrow> nat option" where
  "str_find sub [] = (if sub = [] then Some 0 else None)"
| "str_find sub (c # cs) =
     (if startswith (c # cs) sub then Some 0 else map_option Suc (str_find sub cs))"

definition str_contains :: "string \<Rightarrow> string \<Rightarrow> bool" where
  "str_contains sub s = (str_find sub s \<noteq> None)"

text \<open>
  \<^verbatim>\<open>s.replace(old, new, count)\<close>: the occurrences of \<open>old\<close> are replaced from left to
  right without overlap; \<open>count = None\<close> is the call without a count (every occurrence),
  \<open>Some n\<close> replaces at most \<open>n\<close>. An empty \<open>old\<close> matches before every character and at
  the end, as in Python.
\<close>

definition dec_count :: "nat option \<Rightarrow> nat option" where
  "dec_count count = map_option (\<lambda>n. n - 1) count"

function str_replace :: "string \<Rightarrow> string \<Rightarrow> nat option \<Rightarrow> string \<Rightarrow> string" where
  "str_replace old new count [] = (if old = [] \<and> count \<noteq> Some 0 then new else [])"
| "str_replace old new count (c # cs) =
     (if count = Some 0 then c # cs
      else if old = [] then new @ c # str_replace old new (dec_count count) cs
      else if startswith (c # cs) old
        then new @ str_replace old new (dec_count count) (drop (length old) (c # cs))
      else c # str_replace old new count cs)"
  by pat_completeness auto
termination
  by (relation "measure (\<lambda>(old, new, count, s). length s)") (auto simp: neq_Nil_conv)

text \<open>
  \<^verbatim>\<open>s.split(sep, 1)\<close> for a non-empty separator: one part when \<open>sep\<close> does not occur,
  otherwise the text before and the text after its first occurrence.
\<close>

definition str_split1 :: "string \<Rightarrow> string \<Rightarrow> string list" where
  "str_split1 sep s =
     (case str_find sep s of
        None \<Rightarrow> [s]
      | Some i \<Rightarrow> [take i s, drop (i + length sep) s])"

text \<open>
  \<^verbatim>\<open>s.split()\<close>: the maximal runs of non-whitespace characters; \<open>cur\<close> is the run
  being read.
\<close>

fun split_ws_from :: "string \<Rightarrow> string \<Rightarrow> string list" where
  "split_ws_from cur [] = (if cur = [] then [] else [cur])"
| "split_ws_from cur (c # cs) =
     (if isspace c
      then (if cur = [] then split_ws_from [] cs else cur # split_ws_from [] cs)
      else split_ws_from (cur @ [c]) cs)"

definition str_split_ws :: "string \<Rightarrow> string list" where
  "str_split_ws s = split_ws_from [] s"

text \<open>\<^verbatim>\<open>sep.join(parts)\<close>\<close>

fun str_join :: "string \<Rightarrow> string list \<Rightarrow> string" where
  "str_join sep [] = []"
| "str_join sep [p] = p"
| "str_join sep (p # q # ps) = p @ sep @ str_join sep (q # ps)"


section \<open>The parsed document\<close>

text \<open>
  The tree built by \<^verbatim>\<open>BeautifulSoup(response.content, 'html.parser')\<close>. A node is
  \<^item> a string of ordinary text (\<^verbatim>\<open>NavigableString\<close>, \<^verbatim>\<open>CData\<close>): \<open>Text\<close>;
  \<^item> a string of one of the other classes, with its class: \<open>Other\<close>. The parser makes
    a comment a \<^verbatim>\<open>Comment\<close> and gives a string the class of the innermost
    \<^verbatim>\<open>script\<close>, \<^verbatim>\<open>style\<close>, \<^verbatim>\<open>template\<close>, \<^verbatim>\<open>rt\<close> or \<^verbatim>\<open>rp\<close> tag it stands in;
  \<^item> a tag with its name, its attribute dictionary (an association list with distinct
    keys; the value of the multi-valued \<^verbatim>\<open>class\<close> attribute is kept as its tokens
    joined by single spaces) and its contents.
  The soup itself is the tag named \<^verbatim>\<open>[document]\<close> whose contents are the top-level
  nodes.
\<close>

datatype string_class =
    Comment | Declaration | Doctype | ProcessingInstruction
  | Script | Stylesheet | TemplateString | RubyTextString | RubyParenthesisString

datatype node =
    Text string
  | Other string_class string
  | Tag string "(string \<times> string) list" "node list"

fun is_tag :: "node \<Rightarrow> bool" where
  "is_tag (Tag n a cs) = True"
| "is_tag (Text s) = False"
| "is_tag (Other k s) = False"

fun tag_name :: "node \<Rightarrow> string" where
  "tag_name (Tag n a cs) = n"
| "tag_name (Text s) = []"
| "tag_name (Other k s) = []"

fun attrs :: "node \<Rightarrow> (string \<times> string) list" where
  "attrs (Tag n a cs) = a"
| "attrs (Text s) = []"
| "attrs (Other k s) = []"

fun contents :: "node \<Rightarrow> node list" where
  "contents (Tag n a cs) = cs"
| "contents (Text s) = []"
| "contents (Other k s) = []"

text \<open>\<^verbatim>\<open>tag.descendants\<close>: every node below the tag, in document order.\<close>

fun descendants :: "node \<Rightarrow> node list" where
  "descendants (Text s) = []"
| "descendants (Other k s) = []"
| "descendants (Tag n a cs) = concat (map (\<lambda>c. c # descendants c) cs)"

text \<open>
  \<^verbatim>\<open>a == b\<close> on tags compares name, attribute dictionary and contents, recursively
  (\<^verbatim>\<open>Tag.__eq__\<close>); it is not object identity. Two strings among the contents are
  compared as Python strings, by their characters, whatever their classes; a string and
  a tag are never equal.
\<close>

fun node_eq :: "node \<Rightarrow> node \<Rightarrow> bool" and nodes_eq :: "node list \<Rightarrow> node list \<Rightarrow> bool" where
  "node_eq (Text s) (Text t) = (s = t)"
| "node_eq (Text s) (Other l t) = (s = t)"
| "node_eq (Other k s) (Text t) = (s = t)"
| "node_eq (Other k s) (Other l t) = (s = t)"
| "node_eq (Tag n a cs) (Tag m b ds) = (n = m \<and> set a = set b \<and> nodes_eq cs ds)"
| "node_eq (Text s) (Tag m b ds) = False"
| "node_eq (Other k s) (Tag m b ds) = False"
| "node_eq (Tag n a cs) (Text t) = False"
| "node_eq (Tag n a cs) (Other l t) = False"
| "nodes_eq [] [] = True"
| "nodes_eq (c # cs) (d # ds) = (node_eq c d \<and> nodes_eq cs ds)"
| "nodes_eq [] (d # ds) = False"
| "nodes_eq (c # cs) [] = False"

subsection \<open>Search filters\<close>

text \<open>\<^verbatim>\<open>'key' in tag.attrs\<close>, also the filter \<^verbatim>\<open>key=True\<close>.\<close>

definition has_attr :: "string \<Rightarrow> node \<Rightarrow> bool" where
  "has_attr k e = (map_of (attrs e) k \<noteq> None)"

text \<open>The filter \<^verbatim>\<open>id='...'\<close>.\<close>

definition has_id :: "string \<Rightarrow> node \<Rightarrow> bool" where
  "has_id v e = (map_of (attrs e) ''id'' = Some v)"

text \<open>
  The filter \<^verbatim>\<open>class_='...'\<close>: one of the tag's classes is the given one, or the
  whole class value is.
\<close>

definition has_class :: "string \<Rightarrow> node \<Rightarrow> bool" where
  "has_class c e =
     (case map_of (attrs e) ''class'' of
        None \<Rightarrow> False
      | Some v \<Rightarrow> c \<in> set (str_split_ws v) \<or> str_join '' '' (str_split_ws v) = c)"

definition any_tag :: "node \<Rightarrow> bool" where
  "any_tag e = True"

definition matches :: "string \<Rightarrow> (node \<Rightarrow> bool) \<Rightarrow> node \<Rightarrow> bool" where
  "matches nm flt e = (is_tag e \<and> tag_name e = nm \<and> flt e)"

text \<open>\<^verbatim>\<open>tag.find_all(nm, ...)\<close> and \<^verbatim>\<open>tag.find(nm, ...)\<close> (\<open>None\<close> when nothing matches).\<close>

definition find_all :: "string \<Rightarrow> (node \<Rightarrow> bool) \<Rightarrow> node \<Rightarrow> node list" where
  "find_all nm flt e = filter (matches nm flt) (descendants e)"

definition find_tag :: "string \<Rightarrow> (node \<Rightarrow> bool) \<Rightarrow> node \<Rightarrow> node option" where
  "find_tag nm flt e = (case find_all nm flt e of [] \<Rightarrow> None | x # xs \<Rightarrow> Some x)"

text \<open>
  Where the code goes on from a found tag to its siblings, the tag is found together
  with the nodes that follow it under the same parent: \<open>find_located\<close> searches a list
  of sibling nodes in document order (a node, then its contents, then the nodes after it).
\<close>

fun find_located :: "(node \<Rightarrow> bool) \<Rightarrow> node list \<Rightarrow> (node \<times> node list) option" where
  "find_located P [] = None"
| "find_located P (Text s # xs) = find_located P xs"
| "find_located P (Other k s # xs) = find_located P xs"
| "find_located P (Tag n a cs # xs) =
     (if P (Tag n a cs) then Some (Tag n a cs, xs)
      else (case find_located P cs of
              Some r \<Rightarrow> Some r
            | None \<Rightarrow> find_located P xs))"

text \<open>
  \<^verbatim>\<open>tag.find_next_sibling()\<close> is the next sibling that is a tag,
  \<^verbatim>\<open>tag.find_next_sibling('p')\<close> the next one named \<^verbatim>\<open>p\<close>; both take the nodes
  following the tag.
\<close>

definition next_tags :: "node list \<Rightarrow> node list" where
  "next_tags sibs = filter is_tag sibs"

definition find_next_sibling :: "string \<Rightarrow> node list \<Rightarrow> node option" where
  "find_next_sibling nm sibs = List.find (matches nm any_tag) sibs"

subsection \<open>Text of a tag\<close>

text \<open>
  The class of the strings a tag of the given name holds
  (\<^verbatim>\<open>builder.string_containers\<close>); \<open>None\<close> for every other tag, whose strings are
  the ordinary ones.
\<close>

definition string_container :: "string \<Rightarrow> string_class option" where
  "string_container nm =
     map_of [(''rt'', RubyTextString), (''rp'', RubyParenthesisString),
             (''style'', Stylesheet), (''script'', Script),
             (''template'', TemplateString)] nm"

text \<open>
  \<^verbatim>\<open>tag.get_text(separator=sep, strip=True)\<close>: the strings below the tag in document
  order whose class is the one the tag holds (\<^verbatim>\<open>tag.interesting_string_types\<close>: for
  a cell, a bold element, a span or a paragraph the ordinary strings, so that comments
  and the strings inside \<^verbatim>\<open>script\<close>, \<^verbatim>\<open>style\<close> and the like are left out), each
  stripped, the empty ones dropped, joined by \<open>sep\<close>.
\<close>

fun strings_of :: "string_class option \<Rightarrow> node list \<Rightarrow> string list" where
  "strings_of wanted [] = []"
| "strings_of wanted (Text s # ns) =
     (if wanted = None then s # strings_of wanted ns else strings_of wanted ns)"
| "strings_of wanted (Other k s # ns) =
     (if wanted = Some k then s # strings_of wanted ns else strings_of wanted ns)"
| "strings_of wanted (Tag n a cs # ns) = strings_of wanted ns"

definition stripped_strings :: "node \<Rightarrow> string list" where
  "stripped_strings e =
     filter (\<lambda>s. s \<noteq> [])
       (map strip (strings_of (string_container (tag_name e)) (descendants e)))"

definition get_text :: "string \<Rightarrow> node \<Rightarrow> string" where
  "get_text sep e = str_join sep (stripped_strings e)"

section \<open>Fetching, records and exceptions\<close>

text \<open>
  An exception of class \<^verbatim>\<open>requests.exceptions.RequestException\<close>, or any other
  \<^verbatim>\<open>Exception\<close>, each with its message \<^verbatim>\<open>str(e)\<close>.
\<close>

datatype exn = RequestException string | OtherException string

text \<open>
  What \<^verbatim>\<open>requests.get(url)\<close>, \<^verbatim>\<open>raise_for_status()\<close> and the parser give for a
  URL: an exception, or the parsed soup.
\<close>

datatype response = Failed exn | Page node

type_synonym web = "string \<Rightarrow> response"

text \<open>A scraped record: the dictionary with the keys \<^verbatim>\<open>name\<close>, \<^verbatim>\<open>image_url\<close>, \<^verbatim>\<open>description\<close>.\<close>

record entry =
  name :: string
  image_url :: "string option"
  description :: string

section \<open>\<^verbatim>\<open>scrape_pokemon_ribbons\<close>\<close>

definition ribbon_image_url :: "node \<Rightarrow> string option" where
  "ribbon_image_url image_column =
     (case find_tag ''img'' any_tag image_column of
        None \<Rightarrow> None
      | Some img_tag \<Rightarrow>
          (case map_of (attrs img_tag) ''src'' of
             None \<Rightarrow> None
           | Some src \<Rightarrow>
               Some (if \<not> startswith src ''http''
                     then ''https://www.serebii.net/games/'' @ src
                     else src)))"

text \<open>The body of the loop over the rows: the record the row appends, if any.\<close>

definition ribbon_row :: "node \<Rightarrow> entry option" where
  "ribbon_row row =
     (let columns = find_all ''td'' any_tag row
      in if length columns \<ge> 3
         then Some \<lparr>name = get_text [] (columns ! 1),
                    image_url = ribbon_image_url (columns ! 0),
                    description = get_text '' '' (columns ! 2)\<rparr>
         else None)"

text \<open>The loop \<^verbatim>\<open>for row in rows\<close>, with \<open>ribbons_data\<close> passed along.\<close>

fun ribbon_rows :: "node list \<Rightarrow> entry list \<Rightarrow> entry list" where
  "ribbon_rows [] ribbons_data = ribbons_data"
| "ribbon_rows (row # rows) ribbons_data =
     ribbon_rows rows
       (case ribbon_row row of
          None \<Rightarrow> ribbons_data
        | Some r \<Rightarrow> ribbons_data @ [r])"

text \<open>
  The \<^verbatim>\<open>try\<close> block: the list built so far, the lines printed, and the exception
  that ended the block, if one did.
\<close>

definition ribbons_try :: "response \<Rightarrow> entry list \<times> string list \<times> exn option" where
  "ribbons_try resp =
     (case resp of
        Failed e \<Rightarrow> ([], [], Some e)
      | Page soup \<Rightarrow>
          (case find_tag ''table'' (has_class ''dextable'') soup of
             None \<Rightarrow> ([], [''Error: Could not find the ribbon table.''], None)
           | Some ribbon_table \<Rightarrow>
               (ribbon_rows (tl (find_all ''tr'' any_tag ribbon_table)) [], [], None)))"

text \<open>The function: the list it returns and the lines it prints.\<close>

definition scrape_pokemon_ribbons :: "web \<Rightarrow> string \<Rightarrow> entry list \<times> string list" where
  "scrape_pokemon_ribbons w url =
     (case ribbons_try (w url) of
        (ribbons_data, out, None) \<Rightarrow> (ribbons_data, out)
      | (ribbons_data, out, Some (RequestException e)) \<Rightarrow>
          (ribbons_data, out @ [''Error making request to '' @ url @ '': '' @ e])
      | (ribbons_data, out, Some (OtherException e)) \<Rightarrow>
          (ribbons_data, out @ [''An unexpected error occurred: '' @ e]))"

section \<open>\<^verbatim>\<open>scrape_gym_badges\<close>\<close>

subsection \<open>Table selection\<close>

text \<open>
  The inner \<^verbatim>\<open>while temp_element and temp_element.name != 'h2' and ... != 'h3'\<close>.
  The list is \<open>temp_element\<close> followed by its next tag siblings (empty when
  \<open>temp_element\<close> is \<open>None\<close>); the result is \<open>relevant_tables\<close> and the list at which the
  loop stopped.
\<close>

fun sweep_h3 :: "node list \<Rightarrow> node list \<Rightarrow> node list \<times> node list" where
  "sweep_h3 [] relevant_tables = (relevant_tables, [])"
| "sweep_h3 (temp_element # sibs) relevant_tables =
     (if tag_name temp_element \<noteq> ''h2'' \<and> tag_name temp_element \<noteq> ''h3''
      then sweep_h3 sibs
             (if tag_name temp_element = ''table''
              then relevant_tables @ [temp_element] else relevant_tables)
      else (relevant_tables, temp_element # sibs))"

text \<open>
  The outer \<^verbatim>\<open>while current_element and current_element != anime_exclusive_heading\<close>,
  on \<open>current_element\<close> followed by its next tag siblings.
\<close>

function walk_siblings :: "node \<Rightarrow> node list \<Rightarrow> node list \<Rightarrow> node list" where
  "walk_siblings anime_exclusive_heading [] relevant_tables = relevant_tables"
| "walk_siblings anime_exclusive_heading (current_element # sibs) relevant_tables =
     (if node_eq current_element anime_exclusive_heading then relevant_tables
      else
        (let relevant_tables1 =
               (if tag_name current_element = ''table''
                then relevant_tables @ [current_element] else relevant_tables)
         in case sibs of
              [] \<Rightarrow> relevant_tables1
            | nxt # sibs1 \<Rightarrow>
                if tag_name nxt = ''h3''
                then (case sweep_h3 sibs1 relevant_tables1 of
                        (relevant_tables2, rest) \<Rightarrow>
                          walk_siblings anime_exclusive_heading rest relevant_tables2)
                else walk_siblings anime_exclusive_heading (nxt # sibs1) relevant_tables1))"
  by pat_completeness auto
termination
proof (relation "measure (\<lambda>(a, l, r). length l)")
  have sweep_le: "length (snd (sweep_h3 xs r)) \<le> length xs" for xs r
    by (induction xs arbitrary: r) (auto intro: le_SucI)
  fix anime_exclusive_heading current_element :: node
  fix sibs relevant_tables x sibs1 xa rel2 rest :: "node list"
  fix nxt :: node
  assume "sibs = nxt # sibs1" and "(rel2, rest) = sweep_h3 sibs1 xa"
  then have "length rest \<le> length sibs1"
    using sweep_le [of sibs1 xa] by (metis snd_conv)
  then show "((anime_exclusive_heading, rest, rel2),
              (anime_exclusive_heading, current_element # sibs, relevant_tables))
             \<in> measure (\<lambda>(a, l, r). length l)"
    using \<open>sibs = nxt # sibs1\<close> by simp
qed auto

definition relevant_tables_of :: "node \<Rightarrow> node list" where
  "relevant_tables_of soup =
     (let content_tables = find_all ''table'' (has_class ''prettytable'') soup
      in case find_tag ''h2'' (has_id ''Anime_exclusive'') soup of
           Some anime_exclusive_heading \<Rightarrow>
             (case find_located (matches ''h2'' (has_id ''Indigo_League'')) (contents soup) of
                Some (start_element, sibs) \<Rightarrow>
                  walk_siblings anime_exclusive_heading (start_element # next_tags sibs) []
              | None \<Rightarrow> [])
         | None \<Rightarrow> content_tables)"


subsection \<open>One row\<close>

definition badge_image_url :: "node \<Rightarrow> string option" where
  "badge_image_url image_column =
     (let image_url =
            (case find_tag ''img'' (has_class ''mw-file-element'') image_column of
               None \<Rightarrow> None
             | Some img_tag \<Rightarrow>
                 (case map_of (attrs img_tag) ''data-src'' of
                    Some v \<Rightarrow> Some v
                  | None \<Rightarrow> map_of (attrs img_tag) ''src''))
      in case image_url of
           None \<Rightarrow> None
         | Some u \<Rightarrow>
             Some (if u \<noteq> [] \<and> \<not> startswith u ''http''
                   then ''https://pokemon.fandom.com'' @ u else u))"

definition badge_name_of :: "node \<Rightarrow> string" where
  "badge_name_of info_column =
     (case find_tag ''b'' any_tag info_column of
        Some name_tag \<Rightarrow> str_replace ''The '' [] None (get_text [] name_tag)
      | None \<Rightarrow>
          (case find_tag ''span'' (has_attr ''id'') info_column of
             Some span_with_id \<Rightarrow> str_replace ''The '' [] None (get_text [] span_with_id)
           | None \<Rightarrow> ''Unnamed Badge''))"

text \<open>The three steps on the description, in the order of the code.\<close>

definition remove_name :: "string \<Rightarrow> string \<Rightarrow> string" where
  "remove_name badge_name full_info_text =
     (if badge_name \<noteq> [] \<and> startswith full_info_text (''The '' @ badge_name)
      then strip (str_replace (''The '' @ badge_name) [] (Some 1) full_info_text)
      else if badge_name \<noteq> []
      then strip (str_replace badge_name [] (Some 1) full_info_text)
      else full_info_text)"

definition cut_abilities :: "string \<Rightarrow> string" where
  "cut_abilities desc =
     (if startswith desc ''is given out at''
      then strip (hd (str_split1 ''Abilities:'' desc))
      else if str_contains ''Abilities:'' desc
      then strip (hd (str_split1 ''Abilities:'' desc))
      else desc)"

definition collapse_spaces :: "string \<Rightarrow> string" where
  "collapse_spaces desc = str_join '' '' (str_split_ws desc)"

definition cleaned_description :: "string \<Rightarrow> string \<Rightarrow> string" where
  "cleaned_description badge_name full_info_text =
     collapse_spaces (cut_abilities (remove_name badge_name full_info_text))"

text \<open>
  \<^verbatim>\<open>soup.find('h2', id='Paldea_League').find_next_sibling('p')\<close> and the branch on it.
  When the heading is missing, \<^verbatim>\<open>find\<close> gives \<^verbatim>\<open>None\<close> and the attribute access
  raises \<^verbatim>\<open>AttributeError\<close>.
\<close>

definition paldea_description :: "node \<Rightarrow> string \<Rightarrow> exn + string" where
  "paldea_description soup full_info_text =
     (case find_located (matches ''h2'' (has_id ''Paldea_League'')) (contents soup) of
        None \<Rightarrow>
          Inl (OtherException
                 (CHR 0x27 # ''NoneType'' @ CHR 0x27 # '' object has no attribute ''
                  @ CHR 0x27 # ''find_next_sibling'' @ [CHR 0x27]))
      | Some (heading, sibs) \<Rightarrow>
          (case find_next_sibling ''p'' sibs of
             Some paldea_desc_p \<Rightarrow> Inr (get_text [] paldea_desc_p)
           | None \<Rightarrow> Inr full_info_text))"

text \<open>The body of the loop over the rows: an exception, or the record the row appends, if any.\<close>

definition badge_row :: "node \<Rightarrow> node \<Rightarrow> exn + entry option" where
  "badge_row soup row =
     (let columns = find_all ''td'' any_tag row
      in if length columns \<ge> 2
         then
           (let image_column = columns ! 0;
                info_column = columns ! 1;
                badge_name = badge_name_of info_column;
                full_info_text = get_text '' '' info_column
            in if badge_name = ''Unnamed Badge''
               then (case paldea_description soup full_info_text of
                       Inl e \<Rightarrow> Inl e
                     | Inr d \<Rightarrow>
                         Inr (Some \<lparr>name = badge_name,
                                    image_url = badge_image_url image_column,
                                    description = d\<rparr>))
               else Inr (Some \<lparr>name = badge_name,
                               image_url = badge_image_url image_column,
                               description = cleaned_description badge_name full_info_text\<rparr>))
         else Inr None)"

subsection \<open>The loops and the function\<close>

text \<open>
  \<^verbatim>\<open>for row in rows[1:]\<close> and \<^verbatim>\<open>for table in relevant_tables\<close>, with \<open>badges_data\<close>
  passed along; an exception ends both loops and leaves the list as it was.
\<close>

fun badge_rows :: "node \<Rightarrow> node list \<Rightarrow> entry list \<Rightarrow> entry list \<times> exn option" where
  "badge_rows soup [] badges_data = (badges_data, None)"
| "badge_rows soup (row # rows) badges_data =
     (case badge_row soup row of
        Inl e \<Rightarrow> (badges_data, Some e)
      | Inr None \<Rightarrow> badge_rows soup rows badges_data
      | Inr (Some b) \<Rightarrow> badge_rows soup rows (badges_data @ [b]))"

fun badge_tables :: "node \<Rightarrow> node list \<Rightarrow> entry list \<Rightarrow> entry list \<times> exn option" where
  "badge_tables soup [] badges_data = (badges_data, None)"
| "badge_tables soup (table # tables) badges_data =
     (let rows = find_all ''tr'' any_tag table
      in if length rows > 1
         then (case badge_rows soup (tl rows) badges_data of
                 (badges_data1, None) \<Rightarrow> badge_tables soup tables badges_data1
               | (badges_data1, Some e) \<Rightarrow> (badges_data1, Some e))
         else badge_tables soup tables badges_data)"

definition badges_try :: "response \<Rightarrow> entry list \<times> string list \<times> exn option" where
  "badges_try resp =
     (case resp of
        Failed e \<Rightarrow> ([], [], Some e)
      | Page soup \<Rightarrow>
          (case badge_tables soup (relevant_tables_of soup) [] of
             (badges_data, raised) \<Rightarrow> (badges_data, [], raised)))"

definition scrape_gym_badges :: "web \<Rightarrow> string \<Rightarrow> entry list \<times> string list" where
  "scrape_gym_badges w url =
     (case badges_try (w url) of
        (badges_data, out, None) \<Rightarrow> (badges_data, out)
      | (badges_data, out, Some (RequestException e)) \<Rightarrow>
          (badges_data, out @ [''Error making request to '' @ url @ '': '' @ e])
      | (badges_data, out, Some (OtherException e)) \<Rightarrow>
          (badges_data, out @ [''An unexpected error occurred during scraping: '' @ e]))"

section \<open>The driver\<close>

subsection \<open>\<^verbatim>\<open>json.dumps(records, indent=4)\<close>\<close>

definition hex_digit :: "nat \<Rightarrow> char" where
  "hex_digit n = ''0123456789abcdef'' ! (n mod 16)"

definition unicode_escape :: "char \<Rightarrow> string" where
  "unicode_escape c =
     [CHR 0x5C, CHR ''u'', CHR ''0'', CHR ''0'',
      hex_digit (of_char c div 16), hex_digit (of_char c mod 16)]"

text \<open>
  One character inside a JSON string. With \<open>ensure_ascii\<close> every character outside
  the printable ASCII range is escaped, without it only the control characters.
\<close>

definition escape_char :: "bool \<Rightarrow> char \<Rightarrow> string" where
  "escape_char ensure_ascii c =
     (if c = CHR 0x5C then [CHR 0x5C, CHR 0x5C]
      else if c = CHR 0x22 then [CHR 0x5C, CHR 0x22]
      else if c = CHR 0x08 then [CHR 0x5C, CHR ''b'']
      else if c = CHR 0x0C then [CHR 0x5C, CHR ''f'']
      else if c = CHR 0x0A then [CHR 0x5C, CHR ''n'']
      else if c = CHR 0x0D then [CHR 0x5C, CHR ''r'']
      else if c = CHR 0x09 then [CHR 0x5C, CHR ''t'']
      else if (of_char c :: nat) < 32 then unicode_escape c
      else if ensure_ascii \<and> (of_char c :: nat) > 126 then unicode_escape c
      else [c])"

definition json_string :: "bool \<Rightarrow> string \<Rightarrow> string" where
  "json_string ensure_ascii s =
     [CHR 0x22] @ concat (map (escape_char ensure_ascii) s) @ [CHR 0x22]"

definition json_value :: "bool \<Rightarrow> string option \<Rightarrow> string" where
  "json_value ensure_ascii v =
     (case v of None \<Rightarrow> ''null'' | Some s \<Rightarrow> json_string ensure_ascii s)"

definition newline_indent :: "nat \<Rightarrow> string" where
  "newline_indent level = CHR 0x0A # replicate (4 * level) CHR '' ''"

definition json_entry :: "bool \<Rightarrow> entry \<Rightarrow> string" where
  "json_entry ensure_ascii e =
     ''{'' @ newline_indent 2
     @ json_string ensure_ascii ''name'' @ '': '' @ json_string ensure_ascii (name e)
     @ '','' @ newline_indent 2
     @ json_string ensure_ascii ''image_url'' @ '': '' @ json_value ensure_ascii (image_url e)
     @ '','' @ newline_indent 2
     @ json_string ensure_ascii ''description'' @ '': ''
     @ json_string ensure_ascii (description e)
     @ newline_indent 1 @ ''}''"

definition json_dumps :: "bool \<Rightarrow> entry list \<Rightarrow> string" where
  "json_dumps ensure_ascii es =
     (if es = [] then ''[]''
      else ''['' @ newline_indent 1
           @ str_join ('','' @ newline_indent 1) (map (json_entry ensure_ascii) es)
           @ newline_indent 0 @ '']'')"

subsection \<open>The main block\<close>

text \<open>
  What the program can change: the lines printed to standard output (one per
  \<^verbatim>\<open>print\<close> call) and the files, by name.
\<close>

record world =
  stdout :: "string list"
  files :: "string \<rightharpoonup> string"

definition print :: "string \<Rightarrow> world \<Rightarrow> world" where
  "print line w = w\<lparr>stdout := stdout w @ [line]\<rparr>"

definition write_file :: "string \<Rightarrow> string \<Rightarrow> world \<Rightarrow> world" where
  "write_file path data w = w\<lparr>files := (files w)(path \<mapsto> data)\<rparr>"

definition gym_badges_url :: string where
  "gym_badges_url = ''https://pokemon.fandom.com/wiki/List_of_Gym_Badges''"

definition ribbons_page_url :: string where
  "ribbons_page_url = ''https://www.serebii.net/games/ribbons.shtml''"

text \<open>The \<^verbatim>\<open>if all_gym_badges: ... else: ...\<close> block.\<close>

definition report_gym_badges :: "entry list \<Rightarrow> world \<Rightarrow> world" where
  "report_gym_badges all_gym_badges w =
     (if all_gym_badges \<noteq> []
      then (let json_output = json_dumps False all_gym_badges
            in print (CHR 0x0A # ''Gym badge data saved to pokemon_gym_badges.json'')
                 (write_file ''pokemon_gym_badges.json'' json_output (print json_output w)))
      else print ''No gym badge data was scraped.'' w)"

text \<open>The \<^verbatim>\<open>if all_ribbons: ... else: ...\<close> block.\<close>

definition report_ribbons :: "entry list \<Rightarrow> world \<Rightarrow> world" where
  "report_ribbons all_ribbons w =
     (if all_ribbons \<noteq> []
      then (let json_output = json_dumps True all_ribbons
            in print (CHR 0x0A # ''Ribbon data saved to pokemon_ribbons.json'')
                 (write_file ''pokemon_ribbons.json'' json_output (print json_output w)))
      else print ''No ribbon data was scraped.'' w)"

definition main :: "web \<Rightarrow> world \<Rightarrow> world" where
  "main net w0 =
     (let (all_gym_badges, out1) = scrape_gym_badges net gym_badges_url;
          w1 = report_gym_badges all_gym_badges (w0\<lparr>stdout := stdout w0 @ out1\<rparr>);
          (all_ribbons, out2) = scrape_pokemon_ribbons net ribbons_page_url;
          w2 = report_ribbons all_ribbons (w1\<lparr>stdout := stdout w1 @ out2\<rparr>)
      in w2)"


section \<open>Fixtures\<close>

text \<open>Pages and rows as the two sites have them, used to run the functions on.\<close>

definition header_row :: node where
  "header_row = Tag ''tr'' [] [Tag ''th'' [] [Text ''Image''], Tag ''th'' [] [Text ''Info'']]"

definition boulder_row :: node where
  "boulder_row =
     Tag ''tr'' []
       [Tag ''td'' []
          [Tag ''img'' [(''class'', ''mw-file-element''), (''src'', ''/boulder.png'')] []],
        Tag ''td'' []
          [Tag ''b'' [] [Text ''The Boulder Badge''],
           Text '' is given out at Pewter City Gym. Abilities: Use Strength.'']]"

definition boulder_entry :: entry where
  "boulder_entry =
     \<lparr>name = ''Boulder Badge'',
      image_url = Some ''https://pokemon.fandom.com/boulder.png'',
      description = ''is given out at Pewter City Gym.''\<rparr>"

text \<open>A badge row whose info cell has neither a bold element nor a span with an id.\<close>

definition plain_row :: node where
  "plain_row =
     Tag ''tr'' [] [Tag ''td'' [] [], Tag ''td'' [] [Text ''Awarded in Mesagoza. '']]"

text \<open>A badge row whose bold element has no text, and one with \<^verbatim>\<open>The \<close> twice.\<close>

definition empty_bold_row :: node where
  "empty_bold_row =
     Tag ''tr'' [] [Tag ''td'' [] [], Tag ''td'' [] [Tag ''b'' [] [], Text ''Some badge.'']]"

definition sea_row :: node where
  "sea_row =
     Tag ''tr'' []
       [Tag ''td'' [] [], Tag ''td'' [] [Tag ''b'' [] [Text ''Badge of The Sea''], Text '' it is'']]"

definition two_the_row :: node where
  "two_the_row =
     Tag ''tr'' []
       [Tag ''td'' [] [], Tag ''td'' [] [Tag ''b'' [] [Text ''The Badge of The Sea'']]]"

definition span_row :: node where
  "span_row =
     Tag ''tr'' []
       [Tag ''td'' [] [],
        Tag ''td'' [] [Tag ''span'' [(''id'', ''Sea'')] [Text ''Badge of The Sea'']]]"

definition badge_table :: "node list \<Rightarrow> node" where
  "badge_table rows = Tag ''table'' [(''class'', ''prettytable'')] (header_row # rows)"

text \<open>A badges page with no heading at all, and one with the Paldea League heading.\<close>

definition badges_page :: "node list \<Rightarrow> node" where
  "badges_page rows = Tag ''[document]'' [] [badge_table rows]"

definition paldea_page :: "node list \<Rightarrow> node" where
  "paldea_page rows =
     Tag ''[document]'' []
       [Tag ''h2'' [(''id'', ''Paldea_League'')] [Text ''Paldea League''],
        Text '' '',
        Tag ''p'' [] [Text '' The Paldea badges. ''],
        badge_table rows]"

text \<open>
  A badges page with the anime heading and tables of the badge class, but no Indigo
  League heading; and one with no anime heading, whose tables stand at different depths,
  next to a table of another class.
\<close>

definition anime_only_page :: node where
  "anime_only_page =
     Tag ''[document]'' []
       [badge_table [boulder_row],
        Tag ''h2'' [(''id'', ''Anime_exclusive'')] [Text ''Anime exclusive''],
        badge_table [sea_row]]"

definition scattered_page :: node where
  "scattered_page =
     Tag ''[document]'' []
       [badge_table [boulder_row],
        Tag ''table'' [(''class'', ''navbox'')] [header_row, sea_row],
        Tag ''div'' [] [Tag ''h2'' [(''id'', ''Indigo_League'')] [], badge_table [sea_row]]]"

text \<open>Ribbon rows: a relative image source, an absolute one, too few cells, an empty name cell.\<close>

definition relative_ribbon_row :: node where
  "relative_ribbon_row =
     Tag ''tr'' []
       [Tag ''td'' [] [Tag ''img'' [(''src'', ''/img/r1.png'')] []],
        Tag ''td'' [] [Text '' Champion Ribbon ''],
        Tag ''td'' [] [Text ''Given for '', Tag ''i'' [] [Text ''beating'' ], Text '' the League.'']]"

definition absolute_ribbon_row :: node where
  "absolute_ribbon_row =
     Tag ''tr'' []
       [Tag ''td'' [] [Tag ''img'' [(''src'', ''https://cdn.example/r2.png'')] []],
        Tag ''td'' [] [Text ''Effort Ribbon''],
        Tag ''td'' [] [Text ''Given for effort.'']]"

definition short_ribbon_row :: node where
  "short_ribbon_row = Tag ''tr'' [] [Tag ''td'' [] [Text ''Generation III'']]"

definition blank_ribbon_row :: node where
  "blank_ribbon_row =
     Tag ''tr'' [] [Tag ''td'' [] [], Tag ''td'' [] [Text ''  ''], Tag ''td'' [] [Text ''No name.'']]"

definition ribbons_page :: "node list \<Rightarrow> node" where
  "ribbons_page rows =
     Tag ''[document]'' [] [Tag ''table'' [(''class'', ''dextable'')] (header_row # rows)]"

definition tableless_page :: node where
  "tableless_page = Tag ''[document]'' [] [Tag ''p'' [] [Text ''Moved.'']]"

text \<open>The network: every URL gives the same page, or only the badges URL gives one.\<close>

definition serve :: "node \<Rightarrow> web" where
  "serve soup url = Page soup"

definition refuse :: "exn \<Rightarrow> web" where
  "refuse e url = Failed e"

definition badges_only :: "node \<Rightarrow> web" where
  "badges_only soup url =
     (if url = gym_badges_url then Page soup
      else Failed (RequestException ''404 Client Error''))"

definition empty_world :: world where
  "empty_world = \<lparr>stdout = [], files = Map.empty\<rparr>"

text \<open>The text \<^verbatim>\<open>json.dumps\<close> gives for the Boulder Badge record alone, line by line.\<close>

definition quoted :: "string \<Rightarrow> string" where
  "quoted s = CHR 0x22 # s @ [CHR 0x22]"

definition boulder_json :: string where
  "boulder_json =
     str_join [CHR 0x0A]
       [''['',
        ''    {'',
        ''        '' @ quoted ''name'' @ '': '' @ quoted ''Boulder Badge'' @ '','',
        ''        '' @ quoted ''image_url'' @ '': ''
          @ quoted ''https://pokemon.fandom.com/boulder.png'' @ '','',
        ''        '' @ quoted ''description'' @ '': ''
          @ quoted ''is given out at Pewter City Gym.'',
        ''    }'',
        '']'']"

text \<open>
  A badges page with both headings: a table before the Indigo League heading, tables
  under the heading, under third-level headings and under a later league, and a table
  after the anime heading.
\<close>

definition league_page :: node where
  "league_page =
     Tag ''[document]'' []
       [badge_table [span_row],
        Tag ''h2'' [(''id'', ''Indigo_League'')] [Text ''Indigo League''],
        Text '' '',
        badge_table [boulder_row],
        Tag ''h3'' [] [Text ''Unova''],
        Tag ''p'' [] [Text ''Two sets.''],
        badge_table [sea_row],
        Tag ''h3'' [] [Text ''Unova 2''],
        badge_table [two_the_row],
        Tag ''h2'' [(''id'', ''Johto_League'')] [Text ''Johto League''],
        badge_table [empty_bold_row],
        Tag ''h2'' [(''id'', ''Anime_exclusive'')] [Text ''Anime exclusive''],
        badge_table [plain_row]]"

text \<open>
  An info cell with a comment and a script between its texts, and two headings that
  differ by a comment only.
\<close>

definition noisy_cell :: node where
  "noisy_cell =
     Tag ''td'' []
       [Tag ''b'' [] [Text ''The Marsh Badge''],
        Other Comment '' badge 6 '',
        Tag ''script'' [] [Other Script ''track();''],
        Text '' is given out at Saffron City Gym.'']"

definition commented_heading :: "string \<Rightarrow> node" where
  "commented_heading note =
     Tag ''h2'' [(''id'', ''Anime_exclusive'')] [Text ''Anime exclusive'', Other Comment note]"

section \<open>Lemmas on the searches and the loops\<close>

text \<open>
  The located search finds the tag that \<open>find_tag\<close> finds: both are the first match
  in document order.
\<close>

lemma find_located_first:
  "map_option fst (find_located (matches nm flt) ns) =
     (case filter (matches nm flt) (concat (map (\<lambda>c. c # descendants c) ns)) of
        [] \<Rightarrow> None | x # xs \<Rightarrow> Some x)"
proof (induction "matches nm flt" ns rule: find_located.induct)
  case 1
  show ?case by simp
next
  case (2 s xs)
  then show ?case by (simp add: matches_def)
next
  case (3 k s xs)
  then show ?case by (simp add: matches_def)
next
  case (4 n a cs xs)
  show ?case
  proof (cases "matches nm flt (Tag n a cs)")
    case True
    then show ?thesis by simp
  next
    case False
    show ?thesis
    proof (cases "find_located (matches nm flt) cs")
      case None
      with 4 False show ?thesis by (simp split: list.splits)
    next
      case (Some r)
      with 4 False show ?thesis by (auto split: list.splits)
    qed
  qed
qed

lemma find_located_find_tag:
  "map_option fst (find_located (matches nm flt) (contents soup)) = find_tag nm flt soup"
  by (cases soup) (simp_all add: find_located_first find_tag_def find_all_def)

lemma find_located_None:
  "find_tag nm flt soup = None \<Longrightarrow> find_located (matches nm flt) (contents soup) = None"
  using find_located_find_tag [of nm flt soup] by simp

lemma find_located_Some:
  "find_tag nm flt soup = Some h \<Longrightarrow>
     \<exists>sibs. find_located (matches nm flt) (contents soup) = Some (h, sibs)"
  using find_located_find_tag [of nm flt soup] by auto

text \<open>The ribbon loop appends, in order, the records of the rows that have one.\<close>

lemma ribbon_rows_append:
  "ribbon_rows rows acc = acc @ List.map_filter ribbon_row rows"
  by (induction rows arbitrary: acc) (auto simp: List.map_filter_simps split: option.splits)

lemma map_filter_ribbon_row:
  "List.map_filter ribbon_row rows =
     map (\<lambda>row. \<lparr>name = get_text [] (find_all ''td'' any_tag row ! 1),
                  image_url = ribbon_image_url (find_all ''td'' any_tag row ! 0),
                  description = get_text '' '' (find_all ''td'' any_tag row ! 2)\<rparr>)
         (filter (\<lambda>row. 3 \<le> length (find_all ''td'' any_tag row)) rows)"
  by (induction rows) (auto simp: List.map_filter_simps ribbon_row_def Let_def)

lemma ribbon_row_name:
  "ribbon_row row = Some r \<Longrightarrow>
     3 \<le> length (find_all ''td'' any_tag row) \<and>
     name r = get_text [] (find_all ''td'' any_tag row ! 1)"
  by (auto simp: ribbon_row_def Let_def split: if_splits)

text \<open>Every record the badge loops leave in the list was appended for a row of a table.\<close>

lemma badge_rows_subset:
  "badge_rows soup rows acc = (acc', raised) \<Longrightarrow>
     set acc' \<subseteq> set acc \<union> {b. \<exists>row \<in> set rows. badge_row soup row = Inr (Some b)}"
proof (induction rows arbitrary: acc)
  case Nil
  then show ?case by simp
next
  case (Cons row rows)
  show ?case
  proof (cases "badge_row soup row")
    case (Inl e)
    with Cons.prems show ?thesis by auto
  next
    case (Inr ob)
    show ?thesis
    proof (cases ob)
      case None
      with Inr Cons.prems have "badge_rows soup rows acc = (acc', raised)" by simp
      from Cons.IH [OF this] show ?thesis by auto
    next
      case (Some b)
      with Inr Cons.prems have "badge_rows soup rows (acc @ [b]) = (acc', raised)" by simp
      from Cons.IH [OF this] Inr Some show ?thesis by auto
    qed
  qed
qed

lemma badge_tables_subset:
  "badge_tables soup tables acc = (acc', raised) \<Longrightarrow>
     set acc' \<subseteq> set acc \<union>
       {b. \<exists>table \<in> set tables. \<exists>row \<in> set (tl (find_all ''tr'' any_tag table)).
             badge_row soup row = Inr (Some b)}"
proof (induction tables arbitrary: acc)
  case Nil
  then show ?case by simp
next
  case (Cons t ts)
  let ?rows = "find_all ''tr'' any_tag t"
  show ?case
  proof (cases "length ?rows > 1")
    case False
    with Cons.prems have "badge_tables soup ts acc = (acc', raised)" by (simp add: Let_def)
    from Cons.IH [OF this] show ?thesis by auto
  next
    case True
    obtain acc1 r1 where br: "badge_rows soup (tl ?rows) acc = (acc1, r1)"
      by (cases "badge_rows soup (tl ?rows) acc")
    from badge_rows_subset [OF br]
    have s1: "set acc1 \<subseteq>
                set acc \<union> {b. \<exists>row \<in> set (tl ?rows). badge_row soup row = Inr (Some b)}" .
    show ?thesis
    proof (cases r1)
      case None
      with True br Cons.prems have "badge_tables soup ts acc1 = (acc', raised)"
        by (simp add: Let_def)
      from Cons.IH [OF this] s1 show ?thesis by auto
    next
      case (Some e)
      with True br Cons.prems have "acc' = acc1" by (simp add: Let_def)
      with s1 show ?thesis by auto
    qed
  qed
qed

lemma badge_row_name:
  "badge_row soup row = Inr (Some b) \<Longrightarrow>
     2 \<le> length (find_all ''td'' any_tag row) \<and>
     name b = badge_name_of (find_all ''td'' any_tag row ! 1)"
  by (auto simp: badge_row_def Let_def split: if_splits sum.splits)

lemma scrape_gym_badges_fst:
  "fst (scrape_gym_badges w url) = fst (badges_try (w url))"
  by (auto simp: scrape_gym_badges_def split: prod.splits option.splits exn.splits)

lemma scrape_pokemon_ribbons_fst:
  "fst (scrape_pokemon_ribbons w url) = fst (ribbons_try (w url))"
  by (auto simp: scrape_pokemon_ribbons_def split: prod.splits option.splits exn.splits)

lemma scraped_badge_from_row:
  assumes "r \<in> set (fst (scrape_gym_badges w url))"
  shows "\<exists>soup table row. w url = Page soup \<and> table \<in> set (relevant_tables_of soup) \<and>
           row \<in> set (tl (find_all ''tr'' any_tag table)) \<and>
           badge_row soup row = Inr (Some r)"
proof (cases "w url")
  case (Failed e)
  with assms show ?thesis by (simp add: scrape_gym_badges_fst badges_try_def)
next
  case (Page soup)
  obtain acc raised where bt: "badge_tables soup (relevant_tables_of soup) [] = (acc, raised)"
    by (cases "badge_tables soup (relevant_tables_of soup) []")
  with Page assms have "r \<in> set acc" by (simp add: scrape_gym_badges_fst badges_try_def)
  with badge_tables_subset [OF bt]
  have "r \<in> {b. \<exists>table \<in> set (relevant_tables_of soup).
                \<exists>row \<in> set (tl (find_all ''tr'' any_tag table)).
                  badge_row soup row = Inr (Some b)}"
    by auto
  with Page show ?thesis by blast
qed

lemma scraped_ribbon_from_row:
  assumes "r \<in> set (fst (scrape_pokemon_ribbons w url))"
  shows "\<exists>soup table row. w url = Page soup \<and>
           find_tag ''table'' (has_class ''dextable'') soup = Some table \<and>
           row \<in> set (tl (find_all ''tr'' any_tag table)) \<and>
           ribbon_row row = Some r"
proof (cases "w url")
  case (Failed e)
  with assms show ?thesis by (simp add: scrape_pokemon_ribbons_fst ribbons_try_def)
next
  case (Page soup)
  show ?thesis
  proof (cases "find_tag ''table'' (has_class ''dextable'') soup")
    case None
    with Page assms show ?thesis by (simp add: scrape_pokemon_ribbons_fst ribbons_try_def)
  next
    case (Some t)
    with Page assms
    have "r \<in> set (List.map_filter ribbon_row (tl (find_all ''tr'' any_tag t)))"
      by (simp add: scrape_pokemon_ribbons_fst ribbons_try_def ribbon_rows_append)
    then obtain row where "row \<in> set (tl (find_all ''tr'' any_tag t))" "ribbon_row row = Some r"
      by (auto simp: List.map_filter_def)
    with Page Some show ?thesis by auto
  qed
qed

text \<open>The two working branches of the placeholder's description.\<close>

lemma placeholder_row:
  assumes "2 \<le> length (find_all ''td'' any_tag row)"
    and "badge_name_of (find_all ''td'' any_tag row ! 1) = ''Unnamed Badge''"
    and "find_located (matches ''h2'' (has_id ''Paldea_League'')) (contents soup)
           = Some (heading, sibs)"
  shows "badge_row soup row =
           Inr (Some \<lparr>name = ''Unnamed Badge'',
                      image_url = badge_image_url (find_all ''td'' any_tag row ! 0),
                      description =
                        (case find_next_sibling ''p'' sibs of
                           Some paldea_desc_p \<Rightarrow> get_text [] paldea_desc_p
                         | None \<Rightarrow> get_text '' '' (find_all ''td'' any_tag row ! 1))\<rparr>)"
  using assms by (simp add: badge_row_def Let_def paldea_description_def split: option.splits)

lemma badge_name_placeholder:
  "find_tag ''b'' any_tag info_column = None \<Longrightarrow>
   find_tag ''span'' (has_attr ''id'') info_column = None \<Longrightarrow>
   badge_name_of info_column = ''Unnamed Badge''"
  by (simp add: badge_name_of_def)

text \<open>
  With both headings the walk takes the tables between them, those under third-level
  headings included, and neither the table before the first heading nor the one after
  the anime heading.
\<close>

lemma relevant_tables_of_league_page:
  "relevant_tables_of league_page =
     [badge_table [boulder_row], badge_table [sea_row], badge_table [two_the_row],
      badge_table [empty_bold_row]]"
  by code_simp

text \<open>
  Comments and the strings of a script are no part of a cell's text, and a comment makes
  two headings different.
\<close>

lemma get_text_noisy_cell:
  "get_text '' '' noisy_cell = ''The Marsh Badge is given out at Saffron City Gym.'' \<and>
   get_text [] (Tag ''script'' [] [Other Script ''track();'']) = ''track();''"
  by code_simp

lemma node_eq_commented_heading:
  "\<not> node_eq (commented_heading ''a'') (commented_heading ''b'') \<and>
   node_eq (commented_heading ''a'') (commented_heading ''a'')"
  by code_simp

text \<open>
  The text of a tag, when not empty, ends with a character that is no whitespace: each
  string was stripped before the strings were joined.
\<close>

lemma strip_last: "strip s \<noteq> [] \<Longrightarrow> \<not> isspace (last (strip s))"
proof -
  assume ne: "strip s \<noteq> []"
  let ?d = "dropWhile isspace (rev (dropWhile isspace s))"
  from ne have d: "?d \<noteq> []" by (simp add: strip_def)
  then have "\<not> isspace (hd ?d)" by (rule hd_dropWhile)
  moreover from d have "last (strip s) = hd ?d" by (simp add: strip_def last_rev)
  ultimately show ?thesis by simp
qed

lemma str_join_empty_sep: "str_join [] ps = concat ps"
  by (induction "[] :: string" ps rule: str_join.induct) simp_all

lemma last_concat_nonempty:
  "ps \<noteq> [] \<Longrightarrow> \<forall>p \<in> set ps. p \<noteq> [] \<Longrightarrow> last (concat ps) = last (last ps)"
  by (induction ps) (auto simp: last_append)

lemma get_text_last:
  assumes "get_text [] e \<noteq> []"
  shows "\<not> isspace (last (get_text [] e))"
proof -
  let ?ps = "stripped_strings e"
  from assms have ne: "?ps \<noteq> []" by (auto simp: get_text_def)
  have all: "\<forall>p \<in> set ?ps. p \<noteq> []" by (auto simp: stripped_strings_def)
  from ne have "last ?ps \<in> set ?ps" by simp
  then obtain s where s: "last ?ps = strip s" "strip s \<noteq> []"
    by (auto simp: stripped_strings_def)
  from last_concat_nonempty [OF ne all] s
  have "last (get_text [] e) = last (strip s)"
    by (simp add: get_text_def str_join_empty_sep)
  with strip_last [OF s(2)] show ?thesis by simp
qed

text \<open>
  Deleting every occurrence of a non-empty word leaves nothing only of the empty string
  and of a string that ends with that word's last character.
\<close>

lemma startswith_short:
  "startswith s old \<Longrightarrow> drop (length old) s = [] \<Longrightarrow> s = old"
  by (simp add: startswith_def)

lemma startswith_last:
  assumes "startswith s old" and "drop (length old) s = []"
  shows "last s = last old"
  using startswith_short [OF assms] by simp

lemma str_replace_all_empty:
  "old \<noteq> [] \<Longrightarrow> str_replace old [] None s = [] \<Longrightarrow> s = [] \<or> last s = last old"
proof (induction old "[] :: string" "None :: nat option" s rule: str_replace.induct)
  case (1 old)
  then show ?case by simp
next
  case (2 old c cs)
  show ?case
  proof (cases "startswith (c # cs) old")
    case False
    with 2 show ?thesis by (simp add: dec_count_def)
  next
    case True
    let ?rest = "drop (length old) (c # cs)"
    from True 2 have r: "str_replace old [] None ?rest = []"
      by (simp add: dec_count_def)
    with 2 True have ih: "?rest = [] \<or> last ?rest = last old"
      by (simp add: dec_count_def)
    show ?thesis
    proof (cases "?rest = []")
      case True
      from startswith_last [OF \<open>startswith (c # cs) old\<close> True] show ?thesis by simp
    next
      case False
      with ih have "last ?rest = last old" by simp
      moreover from False have "last (c # cs) = last ?rest"
        by (metis append_take_drop_id last_appendR)
      ultimately show ?thesis by simp
    qed
  qed
qed

lemma name_of_text_empty_iff:
  "str_replace ''The '' [] None (get_text [] e) = [] \<longleftrightarrow> get_text [] e = []"
proof
  assume a: "str_replace ''The '' [] None (get_text [] e) = []"
  show "get_text [] e = []"
  proof (rule ccontr)
    assume ne: "get_text [] e \<noteq> []"
    from str_replace_all_empty [OF _ a] ne have "last (get_text [] e) = CHR '' ''" by simp
    with get_text_last [OF ne] show False by (simp add: isspace_def)
  qed
next
  assume "get_text [] e = []"
  then show "str_replace ''The '' [] None (get_text [] e) = []" by simp
qed

text \<open>
  A badge row raises only when it got the placeholder name on a page without the Paldea
  League heading; a row with two cells or more that does not raise gives a record. While
  no row raises, the loops leave every row's record in the list.
\<close>

lemma badge_row_raises:
  "badge_row soup row = Inl e \<Longrightarrow>
     2 \<le> length (find_all ''td'' any_tag row) \<and>
     badge_name_of (find_all ''td'' any_tag row ! 1) = ''Unnamed Badge'' \<and>
     find_tag ''h2'' (has_id ''Paldea_League'') soup = None"
proof -
  assume a: "badge_row soup row = Inl e"
  then have 1: "2 \<le> length (find_all ''td'' any_tag row) \<and>
     badge_name_of (find_all ''td'' any_tag row ! 1) = ''Unnamed Badge'' \<and>
     find_located (matches ''h2'' (has_id ''Paldea_League'')) (contents soup) = None"
    by (auto simp: badge_row_def Let_def paldea_description_def
        split: if_splits sum.splits option.splits)
  with find_located_find_tag [of "''h2''" "has_id ''Paldea_League''" soup]
  show ?thesis by simp
qed

lemma badge_row_gives_record:
  "2 \<le> length (find_all ''td'' any_tag row) \<Longrightarrow> \<forall>e. badge_row soup row \<noteq> Inl e \<Longrightarrow>
     \<exists>r. badge_row soup row = Inr (Some r)"
  by (auto simp: badge_row_def Let_def split: if_splits sum.splits)

lemma badge_rows_keeps_all:
  "\<forall>row \<in> set rows. \<forall>e. badge_row soup row \<noteq> Inl e \<Longrightarrow>
   badge_rows soup rows acc = (acc', raised) \<Longrightarrow>
     raised = None \<and> set acc \<subseteq> set acc' \<and>
     (\<forall>row \<in> set rows. \<forall>b. badge_row soup row = Inr (Some b) \<longrightarrow> b \<in> set acc')"
proof (induction rows arbitrary: acc)
  case Nil
  then show ?case by simp
next
  case (Cons row rows)
  from Cons.prems(1) obtain ob where ob: "badge_row soup row = Inr ob"
    by (cases "badge_row soup row") auto
  from Cons.prems(1) have rest: "\<forall>row \<in> set rows. \<forall>e. badge_row soup row \<noteq> Inl e" by simp
  show ?case
  proof (cases ob)
    case None
    with ob Cons.prems(2) have "badge_rows soup rows acc = (acc', raised)" by simp
    from Cons.IH [OF rest this] ob None show ?thesis by auto
  next
    case (Some b)
    with ob Cons.prems(2) have "badge_rows soup rows (acc @ [b]) = (acc', raised)" by simp
    from Cons.IH [OF rest this] ob Some show ?thesis by auto
  qed
qed

lemma badge_tables_keeps_all:
  "\<forall>table \<in> set tables. \<forall>row \<in> set (tl (find_all ''tr'' any_tag table)).
      \<forall>e. badge_row soup row \<noteq> Inl e \<Longrightarrow>
   badge_tables soup tables acc = (acc', raised) \<Longrightarrow>
     raised = None \<and> set acc \<subseteq> set acc' \<and>
     (\<forall>table \<in> set tables. \<forall>row \<in> set (tl (find_all ''tr'' any_tag table)).
        \<forall>b. badge_row soup row = Inr (Some b) \<longrightarrow> b \<in> set acc')"
proof (induction tables arbitrary: acc)
  case Nil
  then show ?case by simp
next
  case (Cons t ts)
  let ?rows = "find_all ''tr'' any_tag t"
  from Cons.prems(1)
  have here: "\<forall>row \<in> set (tl ?rows). \<forall>e. badge_row soup row \<noteq> Inl e" by simp
  from Cons.prems(1)
  have rest: "\<forall>table \<in> set ts. \<forall>row \<in> set (tl (find_all ''tr'' any_tag table)).
      \<forall>e. badge_row soup row \<noteq> Inl e"
    by simp
  show ?case
  proof (cases "length ?rows > 1")
    case False
    then have none: "tl ?rows = []" by (cases ?rows) auto
    from False Cons.prems(2) have "badge_tables soup ts acc = (acc', raised)"
      by (simp add: Let_def)
    from Cons.IH [OF rest this] none show ?thesis by auto
  next
    case True
    obtain acc1 r1 where br: "badge_rows soup (tl ?rows) acc = (acc1, r1)"
      by (cases "badge_rows soup (tl ?rows) acc")
    from badge_rows_keeps_all [OF here br]
    have k: "r1 = None" "set acc \<subseteq> set acc1"
      "\<forall>row \<in> set (tl ?rows). \<forall>b. badge_row soup row = Inr (Some b) \<longrightarrow> b \<in> set acc1"
      by auto
    with True br Cons.prems(2) have "badge_tables soup ts acc1 = (acc', raised)"
      by (simp add: Let_def)
    from Cons.IH [OF rest this] k show ?thesis by auto
  qed
qed

lemma scrape_gym_badges_keeps_row:
  assumes page: "w url = Page soup"
    and safe: "\<forall>table \<in> set (relevant_tables_of soup).
                 \<forall>row \<in> set (tl (find_all ''tr'' any_tag table)).
                   \<forall>e. badge_row soup row \<noteq> Inl e"
    and table: "table \<in> set (relevant_tables_of soup)"
    and row: "row \<in> set (tl (find_all ''tr'' any_tag table))"
    and cells: "2 \<le> length (find_all ''td'' any_tag row)"
  shows "\<exists>r \<in> set (fst (scrape_gym_badges w url)).
           badge_row soup row = Inr (Some r) \<and>
           name r = badge_name_of (find_all ''td'' any_tag row ! 1)"
proof -
  obtain acc raised where bt: "badge_tables soup (relevant_tables_of soup) [] = (acc, raised)"
    by (cases "badge_tables soup (relevant_tables_of soup) []")
  from safe table row have "\<forall>e. badge_row soup row \<noteq> Inl e" by blast
  from badge_row_gives_record [OF cells this]
  obtain r where r: "badge_row soup row = Inr (Some r)" by blast
  from badge_tables_keeps_all [OF safe bt] table row r have "r \<in> set acc" by blast
  moreover from page bt have "fst (scrape_gym_badges w url) = acc"
    by (simp add: scrape_gym_badges_fst badges_try_def)
  ultimately show ?thesis using r badge_row_name [OF r] by auto
qed

lemma scrape_pokemon_ribbons_keeps_row:
  assumes page: "w url = Page soup"
    and table: "find_tag ''table'' (has_class ''dextable'') soup = Some table"
    and row: "row \<in> set (tl (find_all ''tr'' any_tag table))"
    and cells: "3 \<le> length (find_all ''td'' any_tag row)"
  shows "\<exists>r \<in> set (fst (scrape_pokemon_ribbons w url)).
           ribbon_row row = Some r \<and>
           name r = get_text [] (find_all ''td'' any_tag row ! 1)"
proof -
  from cells obtain r where r: "ribbon_row row = Some r"
    by (auto simp: ribbon_row_def Let_def)
  from page table
  have "fst (scrape_pokemon_ribbons w url)
          = List.map_filter ribbon_row (tl (find_all ''tr'' any_tag table))"
    by (simp add: scrape_pokemon_ribbons_fst ribbons_try_def ribbon_rows_append)
  with row r have "r \<in> set (fst (scrape_pokemon_ribbons w url))"
    by (force simp: List.map_filter_def)
  with r ribbon_row_name [OF r] show ?thesis by auto
qed

section \<open>The badge extractor: names and descriptions\<close>

text \<open>
  C1. A row named \<^verbatim>\<open>Unnamed Badge\<close> should get the text of the paragraph after the
  Paldea League heading and, when that paragraph cannot be found (also when the heading
  is missing), the full info-cell text, the record being emitted all the same. On a page
  without the heading the lookup raises instead: here the page has a Boulder Badge row,
  a row without bold element or span, and the Boulder Badge row again. The placeholder
  row gets no record, the row after it is never read, and the function returns what it
  had with the message of the \<^verbatim>\<open>AttributeError\<close>.
\<close>

theorem unnamed_badge_without_paldea_heading:
  "scrape_gym_badges (serve (badges_page [boulder_row, plain_row, boulder_row])) gym_badges_url
   = ([boulder_entry],
      [''An unexpected error occurred during scraping: ''
       @ CHR 0x27 # ''NoneType'' @ CHR 0x27 # '' object has no attribute ''
       @ CHR 0x27 # ''find_next_sibling'' @ [CHR 0x27]])"
  by code_simp

lemma boulder_remove_name:
  "remove_name ''Boulder Badge''
     ''The Boulder Badge is given out at Pewter City Gym. Abilities: Use Strength.''
   = ''is given out at Pewter City Gym. Abilities: Use Strength.''"
  by code_simp

lemma boulder_cut_abilities:
  "cut_abilities ''is given out at Pewter City Gym. Abilities: Use Strength.''
   = ''is given out at Pewter City Gym.''"
  by code_simp

lemma boulder_collapse_spaces:
  "collapse_spaces ''is given out at Pewter City Gym.'' = ''is given out at Pewter City Gym.''"
  by code_simp

text \<open>
  C3. A badge row whose info cell has the full text
  \<^verbatim>\<open>The Boulder Badge is given out at Pewter City Gym. Abilities: Use Strength.\<close> and whose
  extracted name is \<^verbatim>\<open>Boulder Badge\<close> is emitted with the description
  \<^verbatim>\<open>is given out at Pewter City Gym.\<close>: the prefix \<^verbatim>\<open>The Boulder Badge\<close> is
  removed once, the rest starts with \<^verbatim>\<open>is given out at\<close> and is cut at
  \<^verbatim>\<open>Abilities:\<close>, and the whitespace is collapsed.
\<close>

theorem boulder_badge_description:
  assumes cols: "find_all ''td'' any_tag row = columns" and len: "2 \<le> length columns"
    and full: "get_text '' '' (columns ! 1) =
       ''The Boulder Badge is given out at Pewter City Gym. Abilities: Use Strength.''"
    and nm: "badge_name_of (columns ! 1) = ''Boulder Badge''"
  shows "badge_row soup row =
           Inr (Some \<lparr>name = ''Boulder Badge'',
                      image_url = badge_image_url (columns ! 0),
                      description = ''is given out at Pewter City Gym.''\<rparr>)"
proof -
  have "cleaned_description ''Boulder Badge''
        ''The Boulder Badge is given out at Pewter City Gym. Abilities: Use Strength.''
        = ''is given out at Pewter City Gym.''"
    unfolding cleaned_description_def boulder_remove_name boulder_cut_abilities
      boulder_collapse_spaces ..
  then show ?thesis
    using cols len full nm by (simp add: badge_row_def Let_def)
qed

theorem boulder_badge_description_witness:
  "badge_row (badges_page []) boulder_row =
     Inr (Some \<lparr>name = ''Boulder Badge'',
                image_url = Some ''https://pokemon.fandom.com/boulder.png'',
                description = ''is given out at Pewter City Gym.''\<rparr>)"
proof -
  let ?cols = "find_all ''td'' any_tag boulder_row"
  have len: "2 \<le> length ?cols" by code_simp
  have full: "get_text '' '' (?cols ! 1) =
       ''The Boulder Badge is given out at Pewter City Gym. Abilities: Use Strength.''"
    by code_simp
  have nm: "badge_name_of (?cols ! 1) = ''Boulder Badge''" by code_simp
  have img: "badge_image_url (?cols ! 0) = Some ''https://pokemon.fandom.com/boulder.png''"
    by code_simp
  show ?thesis
    using boulder_badge_description [OF refl len full nm, of "badges_page []"]
    by (simp only: img)
qed

text \<open>
  C9, as the claim has it: the name is the bold text with the first \<^verbatim>\<open>The \<close> deleted.
  For the bold text \<^verbatim>\<open>The Badge of The Sea\<close> that would be \<^verbatim>\<open>Badge of The Sea\<close>;
  the code gives another name.
\<close>

theorem first_the_only_counterexample:
  "badge_name_of (find_all ''td'' any_tag two_the_row ! 1)
     \<noteq> str_replace ''The '' [] (Some 1)
         (get_text [] (Tag ''b'' [] [Text ''The Badge of The Sea''])) \<and>
   str_replace ''The '' [] (Some 1) (get_text [] (Tag ''b'' [] [Text ''The Badge of The Sea'']))
     = ''Badge of The Sea'' \<and>
   badge_row (badges_page []) two_the_row
     = Inr (Some \<lparr>name = ''Badge of Sea'', image_url = None,
                description = ''The Badge of The Sea''\<rparr>)"
  by code_simp

text \<open>
  C9, amended. The name of a badge record is the stripped text of the first bold element
  of the info cell with every occurrence of \<^verbatim>\<open>The \<close> deleted (from left to right,
  wherever it stands, not only as a prefix); without a bold element it is the stripped
  text of the first span with an id, with every occurrence deleted as well.
\<close>

theorem badge_name_deletes_every_the:
  assumes "find_all ''td'' any_tag row = columns"
    and "badge_row soup row = Inr (Some r)"
  shows "(find_tag ''b'' any_tag (columns ! 1) = Some name_tag \<longrightarrow>
            name r = str_replace ''The '' [] None (get_text [] name_tag)) \<and>
         (find_tag ''b'' any_tag (columns ! 1) = None \<and>
          find_tag ''span'' (has_attr ''id'') (columns ! 1) = Some span_with_id \<longrightarrow>
            name r = str_replace ''The '' [] None (get_text [] span_with_id))"
  using assms badge_row_name [of soup row r] by (auto simp: badge_name_of_def)

theorem badge_name_deletes_every_the_witness:
  "name \<lparr>name = ''Badge of Sea'', image_url = None, description = ''Badge of The Sea it is''\<rparr>
     = str_replace ''The '' [] None ''Badge of The Sea'' \<and>
   badge_row (badges_page []) sea_row
     = Inr (Some \<lparr>name = ''Badge of Sea'', image_url = None, description = ''Badge of The Sea it is''\<rparr>) \<and>
   name \<lparr>name = ''Badge of Sea'', image_url = None, description = ''Badge of The Sea''\<rparr>
     = str_replace ''The '' [] None ''Badge of The Sea'' \<and>
   badge_row (badges_page []) span_row
     = Inr (Some \<lparr>name = ''Badge of Sea'', image_url = None, description = ''Badge of The Sea''\<rparr>)"
proof -
  let ?b = "Tag ''b'' [] [Text ''Badge of The Sea'']"
  let ?s = "Tag ''span'' [(''id'', ''Sea'')] [Text ''Badge of The Sea'']"
  have r1: "badge_row (badges_page []) sea_row
     = Inr (Some \<lparr>name = ''Badge of Sea'', image_url = None, description = ''Badge of The Sea it is''\<rparr>)"
    by code_simp
  have b1: "find_tag ''b'' any_tag (find_all ''td'' any_tag sea_row ! 1) = Some ?b"
    by code_simp
  have t1: "get_text [] ?b = ''Badge of The Sea''" by code_simp
  have r2: "badge_row (badges_page []) span_row
     = Inr (Some \<lparr>name = ''Badge of Sea'', image_url = None, description = ''Badge of The Sea''\<rparr>)"
    by code_simp
  have b2: "find_tag ''b'' any_tag (find_all ''td'' any_tag span_row ! 1) = None"
    by code_simp
  have s2: "find_tag ''span'' (has_attr ''id'') (find_all ''td'' any_tag span_row ! 1) = Some ?s"
    by code_simp
  have t2: "get_text [] ?s = ''Badge of The Sea''" by code_simp
  from badge_name_deletes_every_the [OF refl r1, of ?b] b1 t1
  have n1: "name \<lparr>name = ''Badge of Sea'', image_url = None, description = ''Badge of The Sea it is''\<rparr>
     = str_replace ''The '' [] None ''Badge of The Sea''"
    by simp
  from badge_name_deletes_every_the [OF refl r2, of _ ?s] b2 s2 t2
  have n2: "name \<lparr>name = ''Badge of Sea'', image_url = None, description = ''Badge of The Sea''\<rparr>
     = str_replace ''The '' [] None ''Badge of The Sea''"
    by simp
  from n1 r1 n2 r2 show ?thesis by blast
qed

section \<open>The ribbon extractor\<close>

text \<open>
  C2, as the claim has it: the relative source \<^verbatim>\<open>/img/r1.png\<close> becomes
  \<^verbatim>\<open>https://www.serebii.net/games\<close> followed by \<^verbatim>\<open>/img/r1.png\<close>. The base the code
  prefixes ends with a slash, so the record has another URL.
\<close>

theorem relative_source_counterexample:
  "map_option image_url (ribbon_row relative_ribbon_row)
     \<noteq> Some (Some (''https://www.serebii.net/games'' @ ''/img/r1.png'')) \<and>
   map_option image_url (ribbon_row relative_ribbon_row)
     = Some (Some ''https://www.serebii.net/games//img/r1.png'')"
  by code_simp

text \<open>
  C2, amended. For a ribbon row with at least three cells whose image element (the first
  \<^verbatim>\<open>img\<close> of the first cell) has a source attribute: when the value starts with
  \<^verbatim>\<open>http\<close>, \<open>image_url\<close> is that value unchanged; otherwise it is
  \<^verbatim>\<open>https://www.serebii.net/games/\<close> (with the final slash) followed by the value, so
  \<^verbatim>\<open>/img/r1.png\<close> gives \<^verbatim>\<open>https://www.serebii.net/games//img/r1.png\<close>.
\<close>

theorem ribbon_image_url_prefixed:
  assumes "find_all ''td'' any_tag row = columns" and "3 \<le> length columns"
    and "find_tag ''img'' any_tag (columns ! 0) = Some img_tag"
    and "map_of (attrs img_tag) ''src'' = Some src"
  shows "\<exists>r. ribbon_row row = Some r \<and>
           image_url r = Some (if startswith src ''http'' then src
                               else ''https://www.serebii.net/games/'' @ src)"
  using assms by (simp add: ribbon_row_def ribbon_image_url_def Let_def)

theorem ribbon_image_url_prefixed_witness:
  "(\<exists>r. ribbon_row relative_ribbon_row = Some r \<and>
        image_url r = Some ''https://www.serebii.net/games//img/r1.png'') \<and>
   (\<exists>r. ribbon_row absolute_ribbon_row = Some r \<and>
        image_url r = Some ''https://cdn.example/r2.png'')"
proof -
  let ?img1 = "Tag ''img'' [(''src'', ''/img/r1.png'')] []"
  let ?img2 = "Tag ''img'' [(''src'', ''https://cdn.example/r2.png'')] []"
  have l1: "3 \<le> length (find_all ''td'' any_tag relative_ribbon_row)" by code_simp
  have i1: "find_tag ''img'' any_tag (find_all ''td'' any_tag relative_ribbon_row ! 0)
              = Some ?img1"
    by code_simp
  have s1: "map_of (attrs ?img1) ''src'' = Some ''/img/r1.png''" by simp
  have p1: "\<not> startswith ''/img/r1.png'' ''http''" by code_simp
  have l2: "3 \<le> length (find_all ''td'' any_tag absolute_ribbon_row)" by code_simp
  have i2: "find_tag ''img'' any_tag (find_all ''td'' any_tag absolute_ribbon_row ! 0)
              = Some ?img2"
    by code_simp
  have s2: "map_of (attrs ?img2) ''src'' = Some ''https://cdn.example/r2.png''" by simp
  have p2: "startswith ''https://cdn.example/r2.png'' ''http''" by code_simp
  from ribbon_image_url_prefixed [OF refl l1 i1 s1] p1
  have a: "\<exists>r. ribbon_row relative_ribbon_row = Some r \<and>
        image_url r = Some ''https://www.serebii.net/games//img/r1.png''"
    by simp
  from ribbon_image_url_prefixed [OF refl l2 i2 s2] p2
  have b: "\<exists>r. ribbon_row absolute_ribbon_row = Some r \<and>
        image_url r = Some ''https://cdn.example/r2.png''"
    by simp
  from a b show ?thesis by blast
qed

text \<open>
  C6. When the ribbons page has its table, the extractor returns, in the order of the
  rows after the header row, one record for each row with at least three cells and
  nothing for a row with fewer, and prints nothing; so \<open>N\<close> rows with three cells or
  more give exactly \<open>N\<close> records.
\<close>

theorem ribbons_one_record_per_full_row:
  assumes "w url = Page soup"
    and "find_tag ''table'' (has_class ''dextable'') soup = Some ribbon_table"
    and "rows = tl (find_all ''tr'' any_tag ribbon_table)"
  shows "scrape_pokemon_ribbons w url =
           (map (\<lambda>row. \<lparr>name = get_text [] (find_all ''td'' any_tag row ! 1),
                        image_url = ribbon_image_url (find_all ''td'' any_tag row ! 0),
                        description = get_text '' '' (find_all ''td'' any_tag row ! 2)\<rparr>)
                (filter (\<lambda>row. 3 \<le> length (find_all ''td'' any_tag row)) rows),
            []) \<and>
         length (fst (scrape_pokemon_ribbons w url)) =
           length (filter (\<lambda>row. 3 \<le> length (find_all ''td'' any_tag row)) rows) \<and>
         ((\<forall>row \<in> set rows. 3 \<le> length (find_all ''td'' any_tag row)) \<longrightarrow>
            length (fst (scrape_pokemon_ribbons w url)) = length rows)"
proof -
  have eq: "scrape_pokemon_ribbons w url =
           (map (\<lambda>row. \<lparr>name = get_text [] (find_all ''td'' any_tag row ! 1),
                        image_url = ribbon_image_url (find_all ''td'' any_tag row ! 0),
                        description = get_text '' '' (find_all ''td'' any_tag row ! 2)\<rparr>)
                (filter (\<lambda>row. 3 \<le> length (find_all ''td'' any_tag row)) rows),
            [])"
    using assms
    by (simp add: scrape_pokemon_ribbons_def ribbons_try_def ribbon_rows_append
        map_filter_ribbon_row)
  have all: "(\<forall>row \<in> set rows. 3 \<le> length (find_all ''td'' any_tag row)) \<longrightarrow>
      filter (\<lambda>row. 3 \<le> length (find_all ''td'' any_tag row)) rows = rows"
    by (simp add: filter_id_conv)
  from eq all show ?thesis by auto
qed

theorem ribbons_one_record_per_full_row_witness:
  "map name (fst (scrape_pokemon_ribbons
       (serve (ribbons_page [relative_ribbon_row, short_ribbon_row, absolute_ribbon_row]))
       ribbons_page_url))
     = [''Champion Ribbon'', ''Effort Ribbon''] \<and>
   snd (scrape_pokemon_ribbons
       (serve (ribbons_page [relative_ribbon_row, short_ribbon_row, absolute_ribbon_row]))
       ribbons_page_url) = [] \<and>
   length (fst (scrape_pokemon_ribbons
       (serve (ribbons_page [relative_ribbon_row, absolute_ribbon_row])) ribbons_page_url)) = 2"
proof -
  let ?p1 = "ribbons_page [relative_ribbon_row, short_ribbon_row, absolute_ribbon_row]"
  let ?p2 = "ribbons_page [relative_ribbon_row, absolute_ribbon_row]"
  let ?t1 = "Tag ''table'' [(''class'', ''dextable'')]
               [header_row, relative_ribbon_row, short_ribbon_row, absolute_ribbon_row]"
  let ?t2 = "Tag ''table'' [(''class'', ''dextable'')]
               [header_row, relative_ribbon_row, absolute_ribbon_row]"
  have f1: "find_tag ''table'' (has_class ''dextable'') ?p1 = Some ?t1" by code_simp
  have f2: "find_tag ''table'' (has_class ''dextable'') ?p2 = Some ?t2" by code_simp
  have r1: "[relative_ribbon_row, short_ribbon_row, absolute_ribbon_row]
              = tl (find_all ''tr'' any_tag ?t1)"
    by code_simp
  have r2: "[relative_ribbon_row, absolute_ribbon_row] = tl (find_all ''tr'' any_tag ?t2)"
    by code_simp
  have s1: "serve ?p1 ribbons_page_url = Page ?p1" by (simp add: serve_def)
  have s2: "serve ?p2 ribbons_page_url = Page ?p2" by (simp add: serve_def)
  have full2: "\<forall>row \<in> set [relative_ribbon_row, absolute_ribbon_row].
                 3 \<le> length (find_all ''td'' any_tag row)"
    by code_simp
  have names: "map name
      (map (\<lambda>row. \<lparr>name = get_text [] (find_all ''td'' any_tag row ! 1),
                   image_url = ribbon_image_url (find_all ''td'' any_tag row ! 0),
                   description = get_text '' '' (find_all ''td'' any_tag row ! 2)\<rparr>)
           (filter (\<lambda>row. 3 \<le> length (find_all ''td'' any_tag row))
              [relative_ribbon_row, short_ribbon_row, absolute_ribbon_row]))
      = [''Champion Ribbon'', ''Effort Ribbon'']"
    by code_simp
  from ribbons_one_record_per_full_row
         [of "serve ?p1" ribbons_page_url ?p1 ?t1
             "[relative_ribbon_row, short_ribbon_row, absolute_ribbon_row]", OF s1 f1 r1]
       names
  have a: "map name (fst (scrape_pokemon_ribbons (serve ?p1) ribbons_page_url))
             = [''Champion Ribbon'', ''Effort Ribbon''] \<and>
           snd (scrape_pokemon_ribbons (serve ?p1) ribbons_page_url) = []"
    by simp
  from ribbons_one_record_per_full_row
         [of "serve ?p2" ribbons_page_url ?p2 ?t2
             "[relative_ribbon_row, absolute_ribbon_row]", OF s2 f2 r2]
       full2
  have b: "length (fst (scrape_pokemon_ribbons (serve ?p2) ribbons_page_url)) = 2"
    by simp
  from a b show ?thesis by blast
qed

text \<open>
  C7. When the ribbons document has no table of class \<^verbatim>\<open>dextable\<close>, the extractor
  returns the empty list and prints one diagnostic line; it does the same when the
  request fails and when any other exception ends the \<^verbatim>\<open>try\<close> block before a table
  was found. Every exception of the block is taken by one of the two handlers, so the
  caller gets a list in each case.
\<close>

theorem ribbons_failures_give_empty_list:
  "(w url = Page soup \<and> find_tag ''table'' (has_class ''dextable'') soup = None \<longrightarrow>
      scrape_pokemon_ribbons w url = ([], [''Error: Could not find the ribbon table.''])) \<and>
   (w url = Failed (RequestException e) \<longrightarrow>
      scrape_pokemon_ribbons w url = ([], [''Error making request to '' @ url @ '': '' @ e])) \<and>
   (w url = Failed (OtherException e) \<longrightarrow>
      scrape_pokemon_ribbons w url = ([], [''An unexpected error occurred: '' @ e]))"
  by (simp add: scrape_pokemon_ribbons_def ribbons_try_def)

theorem ribbons_failures_give_empty_list_witness:
  "scrape_pokemon_ribbons (serve tableless_page) ribbons_page_url
     = ([], [''Error: Could not find the ribbon table.'']) \<and>
   scrape_pokemon_ribbons (refuse (RequestException ''timed out'')) ''u''
     = ([], [''Error making request to u: timed out'']) \<and>
   scrape_pokemon_ribbons (refuse (OtherException ''bad markup'')) ''u''
     = ([], [''An unexpected error occurred: bad markup''])"
proof -
  have p: "serve tableless_page ribbons_page_url = Page tableless_page"
    by (simp add: serve_def)
  have n: "find_tag ''table'' (has_class ''dextable'') tableless_page = None" by code_simp
  have a: "scrape_pokemon_ribbons (serve tableless_page) ribbons_page_url
     = ([], [''Error: Could not find the ribbon table.''])"
    using ribbons_failures_give_empty_list
      [of "serve tableless_page" ribbons_page_url tableless_page] p n
    by blast
  have b: "scrape_pokemon_ribbons (refuse (RequestException ''timed out'')) ''u''
     = ([], [''Error making request to u: timed out''])"
    using ribbons_failures_give_empty_list
      [of "refuse (RequestException ''timed out'')" "''u''" _ "''timed out''"]
    by (simp add: refuse_def)
  have c: "scrape_pokemon_ribbons (refuse (OtherException ''bad markup'')) ''u''
     = ([], [''An unexpected error occurred: bad markup''])"
    using ribbons_failures_give_empty_list
      [of "refuse (OtherException ''bad markup'')" "''u''" _ "''bad markup''"]
    by (simp add: refuse_def)
  from a b c show ?thesis by blast
qed

section \<open>Which tables the badge extractor reads\<close>

text \<open>
  C5. When the document has no \<^verbatim>\<open>h2\<close> with the id \<^verbatim>\<open>Anime_exclusive\<close>, the relevant
  tables are all the tables of class \<^verbatim>\<open>prettytable\<close> of the document, wherever they
  stand, and the extractor runs its row loop over exactly these.
\<close>

theorem no_anime_heading_takes_every_table:
  assumes "find_tag ''h2'' (has_id ''Anime_exclusive'') soup = None"
  shows "relevant_tables_of soup = find_all ''table'' (has_class ''prettytable'') soup \<and>
         badges_try (Page soup) =
           (case badge_tables soup (find_all ''table'' (has_class ''prettytable'') soup) [] of
              (badges_data, raised) \<Rightarrow> (badges_data, [], raised))"
  using assms by (simp add: relevant_tables_of_def badges_try_def)

theorem no_anime_heading_takes_every_table_witness:
  "relevant_tables_of scattered_page = [badge_table [boulder_row], badge_table [sea_row]] \<and>
   map name (fst (badges_try (Page scattered_page))) = [''Boulder Badge'', ''Badge of Sea'']"
proof -
  have h: "find_tag ''h2'' (has_id ''Anime_exclusive'') scattered_page = None" by code_simp
  have t: "find_all ''table'' (has_class ''prettytable'') scattered_page
             = [badge_table [boulder_row], badge_table [sea_row]]"
    by code_simp
  have n: "map name (fst (case badge_tables scattered_page
                                 [badge_table [boulder_row], badge_table [sea_row]] [] of
                            (badges_data, raised) \<Rightarrow> (badges_data, [] :: string list, raised)))
             = [''Boulder Badge'', ''Badge of Sea'']"
    by code_simp
  from no_anime_heading_takes_every_table [OF h] t n show ?thesis by simp
qed

text \<open>
  C10. When the document has the \<^verbatim>\<open>h2\<close> with the id \<^verbatim>\<open>Anime_exclusive\<close> but no
  \<^verbatim>\<open>h2\<close> with the id \<^verbatim>\<open>Indigo_League\<close>, no table is selected and the extractor
  returns the empty list (and prints nothing), whatever tables of class
  \<^verbatim>\<open>prettytable\<close> the document has.
\<close>

theorem anime_heading_without_indigo_selects_nothing:
  assumes "find_tag ''h2'' (has_id ''Anime_exclusive'') soup = Some anime_exclusive_heading"
    and "find_tag ''h2'' (has_id ''Indigo_League'') soup = None"
  shows "relevant_tables_of soup = [] \<and>
         (w url = Page soup \<longrightarrow> scrape_gym_badges w url = ([], []))"
proof -
  from assms(2)
  have "find_located (matches ''h2'' (has_id ''Indigo_League'')) (contents soup) = None"
    by (rule find_located_None)
  with assms(1) have rel: "relevant_tables_of soup = []"
    by (simp add: relevant_tables_of_def)
  then show ?thesis by (simp add: scrape_gym_badges_def badges_try_def)
qed

theorem anime_heading_without_indigo_selects_nothing_witness:
  "find_all ''table'' (has_class ''prettytable'') anime_only_page
     = [badge_table [boulder_row], badge_table [sea_row]] \<and>
   relevant_tables_of anime_only_page = [] \<and>
   scrape_gym_badges (serve anime_only_page) gym_badges_url = ([], [])"
proof -
  have a: "find_tag ''h2'' (has_id ''Anime_exclusive'') anime_only_page
             = Some (Tag ''h2'' [(''id'', ''Anime_exclusive'')] [Text ''Anime exclusive''])"
    by code_simp
  have i: "find_tag ''h2'' (has_id ''Indigo_League'') anime_only_page = None" by code_simp
  have t: "find_all ''table'' (has_class ''prettytable'') anime_only_page
             = [badge_table [boulder_row], badge_table [sea_row]]"
    by code_simp
  have p: "serve anime_only_page gym_badges_url = Page anime_only_page"
    by (simp add: serve_def)
  from anime_heading_without_indigo_selects_nothing
         [OF a i, of "serve anime_only_page" gym_badges_url] p t
  show ?thesis by simp
qed

section \<open>The names of the records\<close>

text \<open>
  C4, as the claim has it: no emitted record has an empty name. A ribbon row whose name
  cell holds only whitespace, and a badge row whose bold element has no text, are both
  emitted with the empty name.
\<close>

theorem empty_name_counterexample:
  "map name (fst (scrape_pokemon_ribbons (serve (ribbons_page [blank_ribbon_row]))
                    ribbons_page_url)) = [[]] \<and>
   map name (fst (scrape_gym_badges (serve (badges_page [empty_bold_row]))
                    gym_badges_url)) = [[]]"
  by code_simp

text \<open>
  C4, amended. Every record an extractor returns was built for a row of a table it read,
  and its name is the text read from that row: for a ribbon the stripped text of the
  second cell; for a badge the stripped text of the bold element of the info cell, else
  of its first span with an id, with every \<^verbatim>\<open>The \<close> deleted, and the placeholder
  \<^verbatim>\<open>Unnamed Badge\<close> for an info cell with neither element. Nothing makes the name
  non-empty: it is empty exactly when that text is empty. No row is left out for its
  name: the ribbon extractor returns a record for every row after the header with three
  cells or more, and the badge extractor, on a page that has the Paldea League heading
  or has no row with the placeholder name in the tables it reads, returns a record for
  every row after the header with two cells or more, the placeholder rows and the rows
  with an empty name among them.
\<close>

theorem emitted_record_names:
  "(\<forall>r \<in> set (fst (scrape_pokemon_ribbons w url)).
      \<exists>soup table row.
        w url = Page soup \<and> find_tag ''table'' (has_class ''dextable'') soup = Some table \<and>
        row \<in> set (tl (find_all ''tr'' any_tag table)) \<and>
        3 \<le> length (find_all ''td'' any_tag row) \<and>
        name r = get_text [] (find_all ''td'' any_tag row ! 1)) \<and>
   (\<forall>r \<in> set (fst (scrape_gym_badges w url)).
      \<exists>soup table row.
        w url = Page soup \<and> table \<in> set (relevant_tables_of soup) \<and>
        row \<in> set (tl (find_all ''tr'' any_tag table)) \<and>
        2 \<le> length (find_all ''td'' any_tag row) \<and>
        name r = badge_name_of (find_all ''td'' any_tag row ! 1)) \<and>
   (find_tag ''b'' any_tag info_column = Some name_tag \<longrightarrow>
      badge_name_of info_column = str_replace ''The '' [] None (get_text [] name_tag) \<and>
      (badge_name_of info_column = [] \<longleftrightarrow> get_text [] name_tag = [])) \<and>
   (find_tag ''b'' any_tag info_column = None \<and>
    find_tag ''span'' (has_attr ''id'') info_column = Some span_with_id \<longrightarrow>
      badge_name_of info_column = str_replace ''The '' [] None (get_text [] span_with_id) \<and>
      (badge_name_of info_column = [] \<longleftrightarrow> get_text [] span_with_id = [])) \<and>
   (find_tag ''b'' any_tag info_column = None \<and>
    find_tag ''span'' (has_attr ''id'') info_column = None \<longrightarrow>
      badge_name_of info_column = ''Unnamed Badge'') \<and>
   (w url = Page soup0 \<and> find_tag ''table'' (has_class ''dextable'') soup0 = Some table0 \<and>
    row0 \<in> set (tl (find_all ''tr'' any_tag table0)) \<and>
    3 \<le> length (find_all ''td'' any_tag row0) \<longrightarrow>
      (\<exists>r \<in> set (fst (scrape_pokemon_ribbons w url)).
         ribbon_row row0 = Some r \<and>
         name r = get_text [] (find_all ''td'' any_tag row0 ! 1))) \<and>
   (w url = Page soup0 \<and>
    (find_tag ''h2'' (has_id ''Paldea_League'') soup0 = Some heading \<or>
     (\<forall>table \<in> set (relevant_tables_of soup0).
        \<forall>row \<in> set (tl (find_all ''tr'' any_tag table)).
          2 \<le> length (find_all ''td'' any_tag row) \<longrightarrow>
          badge_name_of (find_all ''td'' any_tag row ! 1) \<noteq> ''Unnamed Badge'')) \<and>
    table0 \<in> set (relevant_tables_of soup0) \<and>
    row0 \<in> set (tl (find_all ''tr'' any_tag table0)) \<and>
    2 \<le> length (find_all ''td'' any_tag row0) \<longrightarrow>
      (\<exists>r \<in> set (fst (scrape_gym_badges w url)).
         badge_row soup0 row0 = Inr (Some r) \<and>
         name r = badge_name_of (find_all ''td'' any_tag row0 ! 1)))"
proof (intro conjI)
  show "(\<forall>r \<in> set (fst (scrape_pokemon_ribbons w url)).
      \<exists>soup table row.
        w url = Page soup \<and> find_tag ''table'' (has_class ''dextable'') soup = Some table \<and>
        row \<in> set (tl (find_all ''tr'' any_tag table)) \<and>
        3 \<le> length (find_all ''td'' any_tag row) \<and>
        name r = get_text [] (find_all ''td'' any_tag row ! 1))"
  proof
    fix r assume "r \<in> set (fst (scrape_pokemon_ribbons w url))"
    from scraped_ribbon_from_row [OF this] obtain soup table row where
      "w url = Page soup" "find_tag ''table'' (has_class ''dextable'') soup = Some table"
      "row \<in> set (tl (find_all ''tr'' any_tag table))" "ribbon_row row = Some r"
      by blast
    with ribbon_row_name [of row r]
    show "\<exists>soup table row.
        w url = Page soup \<and> find_tag ''table'' (has_class ''dextable'') soup = Some table \<and>
        row \<in> set (tl (find_all ''tr'' any_tag table)) \<and>
        3 \<le> length (find_all ''td'' any_tag row) \<and>
        name r = get_text [] (find_all ''td'' any_tag row ! 1)"
      by blast
  qed
next
  show "(\<forall>r \<in> set (fst (scrape_gym_badges w url)).
      \<exists>soup table row.
        w url = Page soup \<and> table \<in> set (relevant_tables_of soup) \<and>
        row \<in> set (tl (find_all ''tr'' any_tag table)) \<and>
        2 \<le> length (find_all ''td'' any_tag row) \<and>
        name r = badge_name_of (find_all ''td'' any_tag row ! 1))"
  proof
    fix r assume "r \<in> set (fst (scrape_gym_badges w url))"
    from scraped_badge_from_row [OF this] obtain soup table row where
      "w url = Page soup" "table \<in> set (relevant_tables_of soup)"
      "row \<in> set (tl (find_all ''tr'' any_tag table))" "badge_row soup row = Inr (Some r)"
      by blast
    with badge_row_name [of soup row r]
    show "\<exists>soup table row.
        w url = Page soup \<and> table \<in> set (relevant_tables_of soup) \<and>
        row \<in> set (tl (find_all ''tr'' any_tag table)) \<and>
        2 \<le> length (find_all ''td'' any_tag row) \<and>
        name r = badge_name_of (find_all ''td'' any_tag row ! 1)"
      by blast
  qed
next
  show "(find_tag ''b'' any_tag info_column = Some name_tag \<longrightarrow>
      badge_name_of info_column = str_replace ''The '' [] None (get_text [] name_tag) \<and>
      (badge_name_of info_column = [] \<longleftrightarrow> get_text [] name_tag = []))"
    by (simp add: badge_name_of_def name_of_text_empty_iff)
next
  show "(find_tag ''b'' any_tag info_column = None \<and>
    find_tag ''span'' (has_attr ''id'') info_column = Some span_with_id \<longrightarrow>
      badge_name_of info_column = str_replace ''The '' [] None (get_text [] span_with_id) \<and>
      (badge_name_of info_column = [] \<longleftrightarrow> get_text [] span_with_id = []))"
    by (simp add: badge_name_of_def name_of_text_empty_iff)
next
  show "(find_tag ''b'' any_tag info_column = None \<and>
    find_tag ''span'' (has_attr ''id'') info_column = None \<longrightarrow>
      badge_name_of info_column = ''Unnamed Badge'')"
    by (simp add: badge_name_placeholder)
next
  show "(w url = Page soup0 \<and> find_tag ''table'' (has_class ''dextable'') soup0 = Some table0 \<and>
    row0 \<in> set (tl (find_all ''tr'' any_tag table0)) \<and>
    3 \<le> length (find_all ''td'' any_tag row0) \<longrightarrow>
      (\<exists>r \<in> set (fst (scrape_pokemon_ribbons w url)).
         ribbon_row row0 = Some r \<and>
         name r = get_text [] (find_all ''td'' any_tag row0 ! 1)))"
    using scrape_pokemon_ribbons_keeps_row [of w url soup0 table0 row0] by blast
next
  show "(w url = Page soup0 \<and>
    (find_tag ''h2'' (has_id ''Paldea_League'') soup0 = Some heading \<or>
     (\<forall>table \<in> set (relevant_tables_of soup0).
        \<forall>row \<in> set (tl (find_all ''tr'' any_tag table)).
          2 \<le> length (find_all ''td'' any_tag row) \<longrightarrow>
          badge_name_of (find_all ''td'' any_tag row ! 1) \<noteq> ''Unnamed Badge'')) \<and>
    table0 \<in> set (relevant_tables_of soup0) \<and>
    row0 \<in> set (tl (find_all ''tr'' any_tag table0)) \<and>
    2 \<le> length (find_all ''td'' any_tag row0) \<longrightarrow>
      (\<exists>r \<in> set (fst (scrape_gym_badges w url)).
         badge_row soup0 row0 = Inr (Some r) \<and>
         name r = badge_name_of (find_all ''td'' any_tag row0 ! 1)))"
  proof
    assume a: "w url = Page soup0 \<and>
    (find_tag ''h2'' (has_id ''Paldea_League'') soup0 = Some heading \<or>
     (\<forall>table \<in> set (relevant_tables_of soup0).
        \<forall>row \<in> set (tl (find_all ''tr'' any_tag table)).
          2 \<le> length (find_all ''td'' any_tag row) \<longrightarrow>
          badge_name_of (find_all ''td'' any_tag row ! 1) \<noteq> ''Unnamed Badge'')) \<and>
    table0 \<in> set (relevant_tables_of soup0) \<and>
    row0 \<in> set (tl (find_all ''tr'' any_tag table0)) \<and>
    2 \<le> length (find_all ''td'' any_tag row0)"
    have safe: "\<forall>table \<in> set (relevant_tables_of soup0).
                 \<forall>row \<in> set (tl (find_all ''tr'' any_tag table)).
                   \<forall>e. badge_row soup0 row \<noteq> Inl e"
    proof (intro ballI allI notI)
      fix table row e
      assume t: "table \<in> set (relevant_tables_of soup0)"
        and r: "row \<in> set (tl (find_all ''tr'' any_tag table))"
        and raised: "badge_row soup0 row = Inl e"
      from badge_row_raises [OF raised]
      have "2 \<le> length (find_all ''td'' any_tag row)"
        "badge_name_of (find_all ''td'' any_tag row ! 1) = ''Unnamed Badge''"
        "find_tag ''h2'' (has_id ''Paldea_League'') soup0 = None"
        by auto
      with a t r show False by auto
    qed
    from a scrape_gym_badges_keeps_row [OF _ safe, of w url table0 row0]
    show "\<exists>r \<in> set (fst (scrape_gym_badges w url)).
         badge_row soup0 row0 = Inr (Some r) \<and>
         name r = badge_name_of (find_all ''td'' any_tag row0 ! 1)"
      by blast
  qed
qed

theorem emitted_record_names_witness:
  "\<lparr>name = [], image_url = None, description = ''No name.''\<rparr>
     \<in> set (fst (scrape_pokemon_ribbons (serve (ribbons_page [blank_ribbon_row]))
                   ribbons_page_url)) \<and>
   (\<exists>soup table row.
      serve (ribbons_page [blank_ribbon_row]) ribbons_page_url = Page soup \<and>
      find_tag ''table'' (has_class ''dextable'') soup = Some table \<and>
      row \<in> set (tl (find_all ''tr'' any_tag table)) \<and>
      3 \<le> length (find_all ''td'' any_tag row) \<and>
      [] = get_text [] (find_all ''td'' any_tag row ! 1)) \<and>
   \<lparr>name = [], image_url = None, description = ''Some badge.''\<rparr>
     \<in> set (fst (scrape_gym_badges (serve (badges_page [empty_bold_row])) gym_badges_url)) \<and>
   (\<exists>soup table row.
      serve (badges_page [empty_bold_row]) gym_badges_url = Page soup \<and>
      table \<in> set (relevant_tables_of soup) \<and>
      row \<in> set (tl (find_all ''tr'' any_tag table)) \<and>
      2 \<le> length (find_all ''td'' any_tag row) \<and>
      [] = badge_name_of (find_all ''td'' any_tag row ! 1)) \<and>
   badge_name_of noisy_cell = ''Marsh Badge'' \<and>
   badge_name_of (Tag ''td'' [] [Tag ''b'' [] [], Text ''Some badge.'']) = [] \<and>
   badge_name_of (Tag ''td'' [] [Tag ''span'' [(''id'', ''Sea'')] [Text ''Badge of The Sea'']])
     = ''Badge of Sea'' \<and>
   badge_name_of (Tag ''td'' [] [Text ''Awarded in Mesagoza. '']) = ''Unnamed Badge'' \<and>
   (\<exists>r \<in> set (fst (scrape_pokemon_ribbons (serve (ribbons_page [blank_ribbon_row]))
                      ribbons_page_url)).
      ribbon_row blank_ribbon_row = Some r \<and> name r = []) \<and>
   (\<exists>r \<in> set (fst (scrape_gym_badges (serve (paldea_page [plain_row, boulder_row]))
                      gym_badges_url)).
      badge_row (paldea_page [plain_row, boulder_row]) plain_row = Inr (Some r) \<and>
      name r = ''Unnamed Badge'') \<and>
   (\<exists>r \<in> set (fst (scrape_gym_badges (serve (badges_page [empty_bold_row, boulder_row]))
                      gym_badges_url)).
      badge_row (badges_page [empty_bold_row, boulder_row]) empty_bold_row = Inr (Some r) \<and>
      name r = []) \<and>
   map name (fst (scrape_gym_badges (serve (paldea_page [plain_row, boulder_row]))
                    gym_badges_url))
     = [''Unnamed Badge'', ''Boulder Badge''] \<and>
   map description (fst (scrape_gym_badges (serve (paldea_page [plain_row, boulder_row]))
                           gym_badges_url))
     = [''The Paldea badges.'', ''is given out at Pewter City Gym.'']"
proof -
  let ?plain = "Tag ''td'' [] [Text ''Awarded in Mesagoza. '']"
  let ?bold = "Tag ''td'' [] [Tag ''b'' [] [], Text ''Some badge.'']"
  let ?span = "Tag ''td'' [] [Tag ''span'' [(''id'', ''Sea'')] [Text ''Badge of The Sea'']]"
  let ?h = "Tag ''h2'' [(''id'', ''Paldea_League'')] [Text ''Paldea League'']"
  let ?rp = "ribbons_page [blank_ribbon_row]"
  let ?pp = "paldea_page [plain_row, boulder_row]"
  let ?bp = "badges_page [empty_bold_row, boulder_row]"
  have m1: "\<lparr>name = [], image_url = None, description = ''No name.''\<rparr>
     \<in> set (fst (scrape_pokemon_ribbons (serve ?rp) ribbons_page_url))"
    by code_simp
  have m2: "\<lparr>name = [], image_url = None, description = ''Some badge.''\<rparr>
     \<in> set (fst (scrape_gym_badges (serve (badges_page [empty_bold_row])) gym_badges_url))"
    by code_simp
  from emitted_record_names [where w = "serve ?rp" and url = ribbons_page_url] m1
  have a: "\<exists>soup table row.
      serve ?rp ribbons_page_url = Page soup \<and>
      find_tag ''table'' (has_class ''dextable'') soup = Some table \<and>
      row \<in> set (tl (find_all ''tr'' any_tag table)) \<and>
      3 \<le> length (find_all ''td'' any_tag row) \<and>
      [] = get_text [] (find_all ''td'' any_tag row ! 1)"
    by fastforce
  from emitted_record_names
         [where w = "serve (badges_page [empty_bold_row])" and url = gym_badges_url] m2
  have b: "\<exists>soup table row.
      serve (badges_page [empty_bold_row]) gym_badges_url = Page soup \<and>
      table \<in> set (relevant_tables_of soup) \<and>
      row \<in> set (tl (find_all ''tr'' any_tag table)) \<and>
      2 \<le> length (find_all ''td'' any_tag row) \<and>
      [] = badge_name_of (find_all ''td'' any_tag row ! 1)"
    by fastforce
  have n1: "find_tag ''b'' any_tag noisy_cell = Some (Tag ''b'' [] [Text ''The Marsh Badge''])"
    by code_simp
  have n2: "str_replace ''The '' [] None (get_text [] (Tag ''b'' [] [Text ''The Marsh Badge'']))
              = ''Marsh Badge''"
    by code_simp
  from emitted_record_names
         [where info_column = noisy_cell and name_tag = "Tag ''b'' [] [Text ''The Marsh Badge'']"]
       n1 n2
  have c1: "badge_name_of noisy_cell = ''Marsh Badge''" by simp
  have e1: "find_tag ''b'' any_tag ?bold = Some (Tag ''b'' [] [])" by code_simp
  have e2: "get_text [] (Tag ''b'' [] []) = []" by code_simp
  from emitted_record_names [where info_column = ?bold and name_tag = "Tag ''b'' [] []"] e1 e2
  have c2: "badge_name_of ?bold = []" by simp
  have s1: "find_tag ''b'' any_tag ?span = None" by code_simp
  have s2: "find_tag ''span'' (has_attr ''id'') ?span
              = Some (Tag ''span'' [(''id'', ''Sea'')] [Text ''Badge of The Sea''])"
    by code_simp
  have s3: "str_replace ''The '' [] None
              (get_text [] (Tag ''span'' [(''id'', ''Sea'')] [Text ''Badge of The Sea'']))
              = ''Badge of Sea''"
    by code_simp
  from emitted_record_names
         [where info_column = ?span
            and span_with_id = "Tag ''span'' [(''id'', ''Sea'')] [Text ''Badge of The Sea'']"]
       s1 s2 s3
  have c3: "badge_name_of ?span = ''Badge of Sea''" by simp
  have p1: "find_tag ''b'' any_tag ?plain = None" by code_simp
  have p2: "find_tag ''span'' (has_attr ''id'') ?plain = None" by code_simp
  from emitted_record_names [where info_column = ?plain] p1 p2
  have c4: "badge_name_of ?plain = ''Unnamed Badge''" by blast
  have r1: "serve ?rp ribbons_page_url = Page ?rp" by (simp add: serve_def)
  have r2: "find_tag ''table'' (has_class ''dextable'') ?rp
              = Some (Tag ''table'' [(''class'', ''dextable'')] [header_row, blank_ribbon_row])"
    by code_simp
  have r3: "blank_ribbon_row \<in> set (tl (find_all ''tr'' any_tag
              (Tag ''table'' [(''class'', ''dextable'')] [header_row, blank_ribbon_row])))"
    by code_simp
  have r4: "3 \<le> length (find_all ''td'' any_tag blank_ribbon_row)" by code_simp
  have r5: "get_text [] (find_all ''td'' any_tag blank_ribbon_row ! 1) = []" by code_simp
  from emitted_record_names
         [where w = "serve ?rp" and url = ribbons_page_url and ?soup0.0 = ?rp
            and ?table0.0 = "Tag ''table'' [(''class'', ''dextable'')]
                               [header_row, blank_ribbon_row]"
            and ?row0.0 = blank_ribbon_row]
       r1 r2 r3 r4 r5
  have d: "\<exists>r \<in> set (fst (scrape_pokemon_ribbons (serve ?rp) ribbons_page_url)).
      ribbon_row blank_ribbon_row = Some r \<and> name r = []"
    by simp
  have q1: "serve ?pp gym_badges_url = Page ?pp" by (simp add: serve_def)
  have q2: "find_tag ''h2'' (has_id ''Paldea_League'') ?pp = Some ?h" by code_simp
  have q3: "badge_table [plain_row, boulder_row] \<in> set (relevant_tables_of ?pp)" by code_simp
  have q4: "plain_row \<in> set (tl (find_all ''tr'' any_tag (badge_table [plain_row, boulder_row])))"
    by code_simp
  have q5: "2 \<le> length (find_all ''td'' any_tag plain_row)" by code_simp
  have q6: "badge_name_of (find_all ''td'' any_tag plain_row ! 1) = ''Unnamed Badge''"
    by code_simp
  from emitted_record_names
         [where w = "serve ?pp" and url = gym_badges_url and ?soup0.0 = ?pp and heading = ?h
            and ?table0.0 = "badge_table [plain_row, boulder_row]" and ?row0.0 = plain_row]
       q1 q2 q3 q4 q5 q6
  have e: "\<exists>r \<in> set (fst (scrape_gym_badges (serve ?pp) gym_badges_url)).
      badge_row ?pp plain_row = Inr (Some r) \<and> name r = ''Unnamed Badge''"
    by simp
  have t1: "serve ?bp gym_badges_url = Page ?bp" by (simp add: serve_def)
  have t2: "\<forall>table \<in> set (relevant_tables_of ?bp).
        \<forall>row \<in> set (tl (find_all ''tr'' any_tag table)).
          2 \<le> length (find_all ''td'' any_tag row) \<longrightarrow>
          badge_name_of (find_all ''td'' any_tag row ! 1) \<noteq> ''Unnamed Badge''"
    by code_simp
  have t3: "badge_table [empty_bold_row, boulder_row] \<in> set (relevant_tables_of ?bp)"
    by code_simp
  have t4: "empty_bold_row
              \<in> set (tl (find_all ''tr'' any_tag (badge_table [empty_bold_row, boulder_row])))"
    by code_simp
  have t5: "2 \<le> length (find_all ''td'' any_tag empty_bold_row)" by code_simp
  have t6: "badge_name_of (find_all ''td'' any_tag empty_bold_row ! 1) = []" by code_simp
  from emitted_record_names
         [where w = "serve ?bp" and url = gym_badges_url and ?soup0.0 = ?bp
            and ?table0.0 = "badge_table [empty_bold_row, boulder_row]"
            and ?row0.0 = empty_bold_row]
       t1 t2 t3 t4 t5 t6
  have f: "\<exists>r \<in> set (fst (scrape_gym_badges (serve ?bp) gym_badges_url)).
      badge_row ?bp empty_bold_row = Inr (Some r) \<and> name r = []"
    by simp
  have g1: "map name (fst (scrape_gym_badges (serve ?pp) gym_badges_url))
     = [''Unnamed Badge'', ''Boulder Badge'']"
    by code_simp
  have g2: "map description (fst (scrape_gym_badges (serve ?pp) gym_badges_url))
     = [''The Paldea badges.'', ''is given out at Pewter City Gym.'']"
    by code_simp
  from m1 a m2 b c1 c2 c3 c4 d e f g1 g2 show ?thesis by blast
qed

section \<open>The driver\<close>

text \<open>The serialization of a non-empty list is a bracketed array, one indented entry after another.\<close>

lemma json_dumps_nonempty:
  "es \<noteq> [] \<Longrightarrow>
     json_dumps ensure_ascii es =
       ''['' @ [CHR 0x0A] @ ''    ''
       @ str_join ('','' @ [CHR 0x0A] @ ''    '') (map (json_entry ensure_ascii) es)
       @ [CHR 0x0A] @ '']''"
  by (simp add: json_dumps_def newline_indent_def numeral_eq_Suc)

lemma json_dumps_boulder: "json_dumps False [boulder_entry] = boulder_json"
  by code_simp

text \<open>
  C8. For each of the two extractor calls the driver, when the list is non-empty, prints
  its serialization (\<^verbatim>\<open>json.dumps\<close> with indent 4) and writes that same text to the
  file of that kind, replacing what the file held; when the list is empty it prints one
  line and leaves the files as they were. Nothing else is written.
\<close>

theorem driver_prints_and_writes:
  assumes "scrape_gym_badges net gym_badges_url = (all_gym_badges, out1)"
    and "scrape_pokemon_ribbons net ribbons_page_url = (all_ribbons, out2)"
  shows "stdout (main net w) =
           stdout w @ out1
           @ (if all_gym_badges \<noteq> []
              then [json_dumps False all_gym_badges,
                    CHR 0x0A # ''Gym badge data saved to pokemon_gym_badges.json'']
              else [''No gym badge data was scraped.''])
           @ out2
           @ (if all_ribbons \<noteq> []
              then [json_dumps True all_ribbons,
                    CHR 0x0A # ''Ribbon data saved to pokemon_ribbons.json'']
              else [''No ribbon data was scraped.'']) \<and>
         files (main net w) =
           (\<lambda>path.
              if path = ''pokemon_ribbons.json'' \<and> all_ribbons \<noteq> []
                then Some (json_dumps True all_ribbons)
              else if path = ''pokemon_gym_badges.json'' \<and> all_gym_badges \<noteq> []
                then Some (json_dumps False all_gym_badges)
              else files w path)"
  using assms
  by (auto simp: main_def report_gym_badges_def report_ribbons_def print_def write_file_def
      Let_def fun_eq_iff)

theorem driver_prints_and_writes_witness:
  "stdout (main (badges_only (badges_page [boulder_row])) empty_world) =
     [boulder_json,
      CHR 0x0A # ''Gym badge data saved to pokemon_gym_badges.json'',
      ''Error making request to https://www.serebii.net/games/ribbons.shtml: 404 Client Error'',
      ''No ribbon data was scraped.''] \<and>
   files (main (badges_only (badges_page [boulder_row])) empty_world) ''pokemon_gym_badges.json''
     = Some boulder_json \<and>
   files (main (badges_only (badges_page [boulder_row])) empty_world) ''pokemon_ribbons.json''
     = None"
proof -
  have b: "scrape_gym_badges (badges_only (badges_page [boulder_row])) gym_badges_url
             = ([boulder_entry], [])"
    by code_simp
  have r: "scrape_pokemon_ribbons (badges_only (badges_page [boulder_row])) ribbons_page_url
             = ([], [''Error making request to https://www.serebii.net/games/ribbons.shtml: 404 Client Error''])"
    by code_simp
  from driver_prints_and_writes [OF b r, of empty_world]
  show ?thesis by (simp add: json_dumps_boulder empty_world_def)
qed


end
